theory Spec2Isabelle
  imports Complex_Main "HOL-Library.Multiset" "HOL-Library.Sublist" "HOL-Library.Option_ord"
begin

section \<open>Skadi decision engine: configuration\<close>

text \<open>
  Python floats are read as reals and Python integers as \<open>int\<close>. A float that is
  not a number has no counterpart here; a missing cell of a data frame is \<open>None\<close>.
  \<open>core/config.py\<close>: the fields of \<open>Settings\<close> that the decision engine reads.
\<close>

record Settings =
  global_kill_switch :: bool
  write_rate_limit_s :: int
  sla_latency_ms :: real
  inlet_max_c :: real
  rack_kw_cap :: real
  ims_tau_fast_percentile :: int
  ims_tau_persist_percentile :: int
  mms_ema_alpha :: real
  mms_persist_ticks :: int
  ims_kmeans_clusters :: int

definition default_settings :: Settings where
  "default_settings =
     \<lparr>global_kill_switch = False, write_rate_limit_s = 120, sla_latency_ms = 250,
      inlet_max_c = 28, rack_kw_cap = 12, ims_tau_fast_percentile = 95,
      ims_tau_persist_percentile = 98, mms_ema_alpha = 0.3, mms_persist_ticks = 6,
      ims_kmeans_clusters = 8\<rparr>"

section \<open>The MMS filter (\<open>mms/filter.py\<close>)\<close>

text \<open>
  The dictionary that \<open>update\<close> returns. The two counters are absent from the
  dictionary returned when the thresholds are not set.
\<close>

record MMSResult =
  ema :: real
  state :: string
  raw_deviation :: real
  consecutive_high :: "int option"
  consecutive_low :: "int option"

record MMSFilter =
  alpha :: real
  persist_ticks :: int
  tau_fast :: "real option"
  tau_persist :: "real option"
  ema :: real
  state :: string
  consecutive_high :: int
  consecutive_low :: int
  history :: "MMSResult list"

text \<open>\<open>x or d\<close> on an optional number: \<open>None\<close> and zero both give the default.\<close>

definition or_default :: "'a::zero option \<Rightarrow> 'a \<Rightarrow> 'a" where
  "or_default x d = (case x of None \<Rightarrow> d | Some v \<Rightarrow> if v = 0 then d else v)"

definition MMSFilter_init ::
  "Settings \<Rightarrow> real option \<Rightarrow> int option \<Rightarrow> real option \<Rightarrow> real option \<Rightarrow> MMSFilter" where
  "MMSFilter_init settings a p tf tp =
     \<lparr>alpha = or_default a (mms_ema_alpha settings),
      persist_ticks = or_default p (mms_persist_ticks settings),
      MMSFilter.tau_fast = tf, MMSFilter.tau_persist = tp,
      ema = 0, state = ''transient'',
      consecutive_high = 0, consecutive_low = 0, history = []\<rparr>"

definition update_thresholds :: "MMSFilter \<Rightarrow> real \<Rightarrow> real \<Rightarrow> MMSFilter" where
  "update_thresholds self tf tp = self\<lparr>MMSFilter.tau_fast := Some tf, MMSFilter.tau_persist := Some tp\<rparr>"

text \<open>\<open>deque(maxlen=n).append\<close>: a full buffer drops its oldest entry.\<close>

definition deque_append :: "nat \<Rightarrow> 'a list \<Rightarrow> 'a \<Rightarrow> 'a list" where
  "deque_append maxlen q x =
     (if maxlen = 0 then []
      else if length q \<ge> maxlen then drop (Suc (length q) - maxlen) q @ [x]
      else q @ [x])"

definition update :: "MMSFilter \<Rightarrow> real \<Rightarrow> MMSResult \<times> MMSFilter" where
  "update self deviation =
     (case (MMSFilter.tau_fast self, MMSFilter.tau_persist self) of
        (Some tf, Some tp) \<Rightarrow>
          (let ema1 = (if MMSFilter.ema self = 0 then deviation
                       else alpha self * deviation + (1 - alpha self) * MMSFilter.ema self);
               high1 = (if ema1 > tp then MMSFilter.consecutive_high self + 1 else 0);
               low1 = (if ema1 > tp then 0
                       else if ema1 < tf then MMSFilter.consecutive_low self + 1 else 0);
               state1 = (if MMSFilter.state self = ''transient''
                         then (if high1 \<ge> persist_ticks self then ''persistent''
                               else MMSFilter.state self)
                         else (if low1 \<ge> persist_ticks self then ''transient''
                               else MMSFilter.state self));
               result = \<lparr>MMSResult.ema = ema1, MMSResult.state = state1,
                         raw_deviation = deviation,
                         MMSResult.consecutive_high = Some high1,
                         MMSResult.consecutive_low = Some low1\<rparr>
           in (result,
               self\<lparr>MMSFilter.ema := ema1, MMSFilter.state := state1,
                    MMSFilter.consecutive_high := high1,
                    MMSFilter.consecutive_low := low1,
                    history := deque_append 100 (history self) result\<rparr>))
      | _ \<Rightarrow>
          (\<lparr>MMSResult.ema = deviation, MMSResult.state = ''transient'',
            raw_deviation = deviation,
            MMSResult.consecutive_high = None, MMSResult.consecutive_low = None\<rparr>,
           self))"

definition reset :: "MMSFilter \<Rightarrow> MMSFilter" where
  "reset self =
     self\<lparr>MMSFilter.ema := 0, MMSFilter.state := ''transient'',
          MMSFilter.consecutive_high := 0, MMSFilter.consecutive_low := 0,
          history := []\<rparr>"

text \<open>Feeding a sequence of deviations to one filter, one \<open>update\<close> per value.\<close>

fun update_all :: "MMSFilter \<Rightarrow> real list \<Rightarrow> MMSFilter" where
  "update_all self [] = self"
| "update_all self (d # ds) = update_all (snd (update self d)) ds"

text \<open>The calls a client can make on a filter, and a run of them.\<close>

datatype mms_call = Update real | UpdateThresholds real real | Reset

fun call :: "MMSFilter \<Rightarrow> mms_call \<Rightarrow> MMSFilter" where
  "call self (Update d) = snd (update self d)"
| "call self (UpdateThresholds tf tp) = update_thresholds self tf tp"
| "call self Reset = reset self"

fun calls :: "MMSFilter \<Rightarrow> mms_call list \<Rightarrow> MMSFilter" where
  "calls self [] = self"
| "calls self (c # cs) = calls (call self c) cs"

section \<open>Candidate actions (\<open>optimizer/policies.py\<close>)\<close>

text \<open>
  A value of a parameter dictionary, and the parts of a formatted string: the literal
  text and the numbers substituted into it (\<open>FixedP n x\<close> is \<open>x\<close> printed with
  \<open>n\<close> decimals). The rendering of a number as digits is not modelled.
\<close>

datatype pyval = IntV int | FloatV real | StrListV "string list"

datatype piece = Txt string | IntP int | FloatP real | FixedP nat real

type_synonym fstring = "piece list"

text \<open>
  The dictionary handed to the executor. \<open>pred_latency_impact_ms\<close> is a key of the
  slow loop's proposals only; \<open>ts\<close> is the clock reading, in seconds.
\<close>

record Proposal =
  action :: string
  params :: "(string \<times> pyval) list"
  target :: string
  pred_saving_pct :: real
  pred_latency_impact_ms :: "real option"
  reason :: fstring
  loop :: string
  ts :: real

text \<open>
  The dataclass \<open>ActionCandidate\<close>. \<open>score\<close> is the attribute that
  \<open>rank_candidates\<close> adds to a candidate; it is \<open>None\<close> on a candidate that has not
  been ranked.
\<close>

record ActionCandidate =
  action :: string
  params :: "(string \<times> pyval) list"
  target :: string
  pred_saving_pct :: real
  pred_latency_impact_ms :: real
  pred_inlet_change_c :: real
  risk_score :: real
  reason :: fstring
  score :: "real option"

text \<open>
  The state snapshot is a dictionary read with \<open>get(key, default)\<close>: a field is
  \<open>None\<close> when the key is absent.
\<close>

record CurrentState =
  avg_inlet_c :: "real option"
  max_inlet_c :: "real option"
  avg_latency_ms :: "real option"
  j_per_prompt_wh :: "real option"
  ims_deviation :: "real option"
  mms_state :: "string option"
  tau_fast :: "real option"
  tau_persist :: "real option"
  rack_temperatures :: "(string \<times> real) list option"
  recent_rollback :: "bool option"

definition dict_get :: "'a option \<Rightarrow> 'a \<Rightarrow> 'a" where
  "dict_get v d = (case v of None \<Rightarrow> d | Some x \<Rightarrow> x)"

datatype error =
  KeyError string | IndexError | ValueError | TypeError | NotFittedError | IMSNotTrainedException

section \<open>The IMS detector (\<open>ims/train.py\<close>, \<open>ims/score.py\<close>)\<close>

subsection \<open>Data frames and arrays\<close>















subsection \<open>The scaler and the clustering\<close>

text \<open>
  A fitted \<open>StandardScaler\<close> is its mean and scale vectors, a fitted
  \<open>MiniBatchKMeans\<close> its centres. How scikit-learn fits them is not modelled: the two
  fitting functions are parameters. \<open>transform\<close> works row by row; a row of the wrong
  length raises \<open>ValueError\<close>, an unfitted object \<open>NotFittedError\<close>.
\<close>

record Scaler =
  scaler_mean :: "real list"
  scaler_scale :: "real list"

record KMeans =
  cluster_centers :: "real list list"







subsection \<open>The trainer\<close>

record IMSTrainer =
  n_clusters :: int
  scaler :: "Scaler option"
  kmeans :: "KMeans option"
  tau_fast :: "real option"
  tau_persist :: "real option"
  features :: "string list"

definition FEATURE_COLUMNS :: "string list" where
  "FEATURE_COLUMNS =
     [''inlet_c'', ''outlet_c'', ''delta_t'', ''pdu_kw'', ''gpu_power_kw'', ''tokens_ps'',
      ''latency_p95_ms'', ''queue_depth'', ''fan_rpm_pct'', ''pump_rpm_pct'']"











subsection \<open>The scorer\<close>

record IMSScorer =
  trainer :: IMSTrainer

definition IMSScorer_init :: "IMSTrainer \<Rightarrow> error + IMSScorer" where
  "IMSScorer_init tr =
     (if IMSTrainer.tau_fast tr = None \<or> IMSTrainer.tau_persist tr = None
      then Inl IMSNotTrainedException else Inr \<lparr>trainer = tr\<rparr>)"




definition classify_deviation :: "IMSScorer \<Rightarrow> real \<Rightarrow> error + string" where
  "classify_deviation self deviation =
     (case (IMSTrainer.tau_fast (trainer self), IMSTrainer.tau_persist (trainer self)) of
        (Some tf, Some tp) \<Rightarrow>
          Inr (if deviation < tf then ''nominal''
               else if deviation < tp then ''warning''
               else ''critical'')
      | _ \<Rightarrow> Inl TypeError)"

section \<open>Candidate generation and ranking\<close>

definition new_candidate ::
  "string \<Rightarrow> (string \<times> pyval) list \<Rightarrow> string \<Rightarrow> real \<Rightarrow> real \<Rightarrow> real \<Rightarrow> real \<Rightarrow> fstring
     \<Rightarrow> ActionCandidate" where
  "new_candidate a ps t saving latency inlet risk why =
     \<lparr>action = a, params = ps, target = t, pred_saving_pct = saving,
      pred_latency_impact_ms = latency, pred_inlet_change_c = inlet, risk_score = risk,
      reason = why, score = None\<rparr>"

definition generate_candidates ::
  "Settings \<Rightarrow> CurrentState \<Rightarrow> string \<Rightarrow> ActionCandidate list" where
  "generate_candidates settings current_state objective =
     (let avg_inlet = dict_get (avg_inlet_c current_state) 22;
          max_inlet = dict_get (max_inlet_c current_state) 26;
          avg_latency = dict_get (avg_latency_ms current_state) 180;
          deviation = dict_get (ims_deviation current_state) 0;
          mms = dict_get (mms_state current_state) ''transient'';
          inlet_margin_c = inlet_max_c settings - max_inlet;
          batch =
            (if avg_latency < sla_latency_ms settings * 0.85
             then [new_candidate ''increase_batch_window'' [(''delta_ms'', IntV delta)]
                     ''system'' (of_int delta * 0.2) (of_int delta * 0.4) 0.1 0.2
                     [Txt ''Increase batch window by '', IntP delta,
                      Txt ''ms to improve throughput efficiency''].
                   delta \<leftarrow> [20, 30, 40],
                   avg_latency + of_int delta * 0.4 < sla_latency_ms settings]
             else []);
          fan =
            (if inlet_margin_c > 2
             then [new_candidate ''decrease_fan_rpm'' [(''delta_pct'', IntV delta_pct)]
                     ''system'' (of_int \<bar>delta_pct\<bar> * 1.2) 0 (of_int \<bar>delta_pct\<bar> * 0.15) 0.3
                     [Txt ''Reduce fan RPM by '', IntP \<bar>delta_pct\<bar>,
                      Txt ''% (safe thermal margin)''].
                   delta_pct \<leftarrow> [- 3, - 4, - 5],
                   max_inlet + of_int \<bar>delta_pct\<bar> * 0.15 < inlet_max_c settings]
             else []);
          supply =
            (if inlet_margin_c > 3
             then [new_candidate ''increase_supply_temp'' [(''delta_c'', FloatV delta_c)]
                     ''system'' (delta_c * 4) 0 delta_c 0.4
                     [Txt ''Raise supply temp by '', FloatP delta_c,
                      Txt [CHR 0xEC, CHR 0xA7, CHR 0xB8], Txt ''C to save chiller energy''].
                   delta_c \<leftarrow> [0.5, 1],
                   avg_inlet + delta_c < inlet_max_c settings - 1]
             else []);
          shift =
            (if deviation > 0.5 \<or> mms = ''persistent''
             then (let rack_temps = dict_get (rack_temperatures current_state) [];
                       cool_racks = [r. (r, t) \<leftarrow> rack_temps, t < avg_inlet - 1]
                   in if rack_temps \<noteq> [] \<and> cool_racks \<noteq> []
                      then [new_candidate ''shift_traffic_to_cool_row''
                              [(''traffic_pct'', IntV traffic_pct),
                               (''target_racks'', StrListV (take 3 cool_racks))]
                              ''routing'' (of_int traffic_pct * 0.15) 5 (- 0.3) 0.25
                              [Txt ''Shift '', IntP traffic_pct,
                               Txt ''% traffic to cooler racks to balance thermal load''].
                            traffic_pct \<leftarrow> [10, 15, 20, 25]]
                      else [])
             else []);
          pause =
            (if mms = ''persistent''
             then [new_candidate ''pause_low_priority_jobs''
                     [(''priority_threshold'', IntV priority_thresh), (''max_pause_pct'', IntV 10)]
                     ''scheduler'' 8 (- 20) (- 1.5) 0.7
                     [Txt ''Pause priority>='', IntP priority_thresh,
                      Txt '' jobs to reduce thermal stress''].
                   priority_thresh \<leftarrow> [3, 4]]
             else []);
          pump =
            (if max_inlet > inlet_max_c settings - 1
             then [new_candidate ''increase_cdu_pump'' [(''delta_pct'', IntV delta_pct)]
                     ''cooling'' (- of_int delta_pct * 0.5) 0 (- 0.4) 0.35
                     [Txt ''Increase pump '', IntP delta_pct,
                      Txt ''% to improve coolant circulation''].
                   delta_pct \<leftarrow> [3, 5]]
             else [])
      in batch @ fan @ supply @ shift @ pause @ pump)"

text \<open>
  \<open>sorted(xs, key=k, reverse=True)\<close>: CPython reverses the list, sorts it stably in
  ascending order and reverses the result, so that equal keys keep their order.
\<close>

definition sorted_reverse :: "('a \<Rightarrow> 'k::linorder) \<Rightarrow> 'a list \<Rightarrow> 'a list" where
  "sorted_reverse k xs = rev (sort_key k (rev xs))"

definition default_weights :: "(string \<times> real) list" where
  "default_weights =
     [(''saving_pct'', 1), (''risk_score'', - 0.8), (''latency_impact'', - 0.3)]"

definition dict_item :: "(string \<times> 'v) list \<Rightarrow> string \<Rightarrow> error + 'v" where
  "dict_item d k = (case map_of d k of None \<Rightarrow> Inl (KeyError k) | Some v \<Rightarrow> Inr v)"

text \<open>The body of the scoring loop for one candidate: \<open>candidate.score = score\<close>.\<close>

definition assign_score :: "(string \<times> real) list \<Rightarrow> ActionCandidate \<Rightarrow> error + ActionCandidate" where
  "assign_score weights candidate =
     (case dict_item weights ''saving_pct'' of Inl e \<Rightarrow> Inl e | Inr w_saving \<Rightarrow>
      case dict_item weights ''risk_score'' of Inl e \<Rightarrow> Inl e | Inr w_risk \<Rightarrow>
      case dict_item weights ''latency_impact'' of Inl e \<Rightarrow> Inl e | Inr w_latency \<Rightarrow>
        Inr (candidate\<lparr>score := Some
          (w_saving * pred_saving_pct candidate + w_risk * risk_score candidate +
           w_latency * \<bar>pred_latency_impact_ms candidate\<bar> / 100)\<rparr>))"

fun assign_scores :: "(string \<times> real) list \<Rightarrow> ActionCandidate list \<Rightarrow> error + ActionCandidate list" where
  "assign_scores weights [] = Inr []"
| "assign_scores weights (c # cs) =
     (case assign_score weights c of Inl e \<Rightarrow> Inl e
      | Inr c1 \<Rightarrow> (case assign_scores weights cs of Inl e \<Rightarrow> Inl e
                  | Inr cs1 \<Rightarrow> Inr (c1 # cs1)))"

definition rank_candidates ::
  "ActionCandidate list \<Rightarrow> (string \<times> real) list option \<Rightarrow> error + ActionCandidate list" where
  "rank_candidates candidates weights =
     (if candidates = [] then Inr []
      else case assign_scores (dict_get weights default_weights) candidates of
             Inl e \<Rightarrow> Inl e
           | Inr scored \<Rightarrow> Inr (sorted_reverse score scored))"

section \<open>The slow optimizer loop (\<open>optimizer/slow_loop.py\<close>)\<close>

fun guardrails_loop ::
  "Settings \<Rightarrow> CurrentState \<Rightarrow> ActionCandidate list \<Rightarrow> ActionCandidate list \<Rightarrow> ActionCandidate list" where
  "guardrails_loop settings current_state [] safe = safe"
| "guardrails_loop settings current_state (candidate # rest) safe =
     (if dict_get (max_inlet_c current_state) 22 + pred_inlet_change_c candidate
           > inlet_max_c settings
      then guardrails_loop settings current_state rest safe
      else if dict_get (avg_latency_ms current_state) 180 + pred_latency_impact_ms candidate
           > sla_latency_ms settings
      then guardrails_loop settings current_state rest safe
      else if pred_inlet_change_c candidate > 1 \<and>
              dict_get (ims_deviation current_state) 0
                > dict_get (CurrentState.tau_persist current_state) 2 * 0.7
      then guardrails_loop settings current_state rest safe
      else if risk_score candidate > 0.6 \<and> dict_get (recent_rollback current_state) False
      then guardrails_loop settings current_state rest safe
      else guardrails_loop settings current_state rest (safe @ [candidate]))"

definition apply_guardrails ::
  "Settings \<Rightarrow> ActionCandidate list \<Rightarrow> CurrentState \<Rightarrow> ActionCandidate list" where
  "apply_guardrails settings candidates current_state =
     guardrails_loop settings current_state candidates []"

text \<open>
  The readings of \<open>datetime.utcnow()\<close> at its three places in one call of a loop: for
  the elapsed time, for the timestamp that is recorded, and for \<open>ts\<close>.
\<close>

record Clock =
  now_elapsed :: real
  now_recorded :: real
  now_ts :: real

record SlowOptimizerLoop =
  last_action_ts :: "string \<rightharpoonup> real"

definition SlowOptimizerLoop_init :: SlowOptimizerLoop where
  "SlowOptimizerLoop_init = \<lparr>last_action_ts = Map.empty\<rparr>"

definition target_key :: "ActionCandidate \<Rightarrow> string" where
  "target_key best = action best @ '':'' @ target best"

text \<open>Lines 31 to 71 of \<open>optimize\<close>: the candidate that reaches the rate limit.\<close>

definition slow_best :: "Settings \<Rightarrow> CurrentState \<Rightarrow> error + ActionCandidate option" where
  "slow_best settings current_state =
     (if global_kill_switch settings then Inr None
      else if dict_get (mms_state current_state) ''transient'' = ''persistent'' then Inr None
      else if dict_get (avg_latency_ms current_state) 180 > sla_latency_ms settings * 0.95
      then Inr None
      else
        (let candidates = generate_candidates settings current_state ''reduce_j_per_prompt''
         in if candidates = [] then Inr None
            else
              (let safe_candidates = apply_guardrails settings candidates current_state
               in if safe_candidates = [] then Inr None
                  else case rank_candidates safe_candidates None of
                         Inl e \<Rightarrow> Inl e
                       | Inr [] \<Rightarrow> Inl IndexError
                       | Inr (best # _) \<Rightarrow> Inr (Some best))))"

definition optimize ::
  "Settings \<Rightarrow> Clock \<Rightarrow> SlowOptimizerLoop \<Rightarrow> CurrentState
     \<Rightarrow> (error + Proposal option) \<times> SlowOptimizerLoop" where
  "optimize settings clock self current_state =
     (case slow_best settings current_state of
        Inl e \<Rightarrow> (Inl e, self)
      | Inr None \<Rightarrow> (Inr None, self)
      | Inr (Some best) \<Rightarrow>
          (if (case last_action_ts self (target_key best) of
                 None \<Rightarrow> False
               | Some last_ts \<Rightarrow> now_elapsed clock - last_ts < of_int (write_rate_limit_s settings))
           then (Inr None, self)
           else
             (Inr (Some \<lparr>Proposal.action = action best, Proposal.params = params best,
                         Proposal.target = target best,
                         Proposal.pred_saving_pct = pred_saving_pct best,
                         Proposal.pred_latency_impact_ms = Some (pred_latency_impact_ms best),
                         Proposal.reason = reason best, loop = ''slow'',
                         ts = now_ts clock\<rparr>),
              self\<lparr>last_action_ts := (last_action_ts self)(target_key best \<mapsto> now_recorded clock)\<rparr>)))"

section \<open>The fast guardrail loop (\<open>optimizer/fast_loop.py\<close>)\<close>

record FastGuardrailLoop =
  last_action_ts :: "string \<rightharpoonup> real"

definition FastGuardrailLoop_init :: FastGuardrailLoop where
  "FastGuardrailLoop_init = \<lparr>FastGuardrailLoop.last_action_ts = Map.empty\<rparr>"

text \<open>\<open>'; '.join(reason)\<close> on formatted strings.\<close>

fun join :: "fstring \<Rightarrow> fstring list \<Rightarrow> fstring" where
  "join sep [] = []"
| "join sep [x] = x"
| "join sep (x # y # ys) = x @ sep @ join sep (y # ys)"

text \<open>
  Lines 27 to 71 of \<open>evaluate\<close>: the trigger reasons and the candidate that reaches the
  rate limit.
\<close>

definition fast_best ::
  "Settings \<Rightarrow> CurrentState \<Rightarrow> error + (fstring list \<times> ActionCandidate) option" where
  "fast_best settings current_state =
     (let deviation = dict_get (ims_deviation current_state) 0;
          mms = dict_get (mms_state current_state) ''transient'';
          tau = dict_get (CurrentState.tau_fast current_state) 1;
          max_inlet = dict_get (max_inlet_c current_state) 22
      in if global_kill_switch settings then Inr None
         else
           (let why =
                  (if deviation > tau
                   then [[Txt ''IMS deviation '', FixedP 3 deviation,
                          Txt '' > tau_fast '', FixedP 3 tau]] else []) @
                  (if mms = ''persistent'' then [[Txt ''MMS state is PERSISTENT'']] else []) @
                  (if max_inlet > inlet_max_c settings - 0.5
                   then [[Txt ''Inlet temp '', FixedP 2 max_inlet,
                          Txt [CHR 0xC2, CHR 0xB0], Txt ''C near limit'']] else []);
                needs_action =
                  (deviation > tau \<or> mms = ''persistent'' \<or>
                   max_inlet > inlet_max_c settings - 0.5)
            in if \<not> needs_action then Inr None
               else
                 (let candidates = generate_candidates settings current_state ''stabilize''
                  in if candidates = [] then Inr None
                     else
                       (let low_risk = filter (\<lambda>c. risk_score c < 0.5) candidates;
                            safe_candidates = (if low_risk = [] then candidates else low_risk)
                        in case rank_candidates safe_candidates None of
                             Inl e \<Rightarrow> Inl e
                           | Inr [] \<Rightarrow> Inl IndexError
                           | Inr (best # _) \<Rightarrow> Inr (Some (why, best))))))"

definition evaluate ::
  "Settings \<Rightarrow> Clock \<Rightarrow> FastGuardrailLoop \<Rightarrow> CurrentState
     \<Rightarrow> (error + Proposal option) \<times> FastGuardrailLoop" where
  "evaluate settings clock self current_state =
     (case fast_best settings current_state of
        Inl e \<Rightarrow> (Inl e, self)
      | Inr None \<Rightarrow> (Inr None, self)
      | Inr (Some (why, best)) \<Rightarrow>
          (if (case FastGuardrailLoop.last_action_ts self (target_key best) of
                 None \<Rightarrow> False
               | Some last_ts \<Rightarrow> now_elapsed clock - last_ts < 60)
           then (Inr None, self)
           else
             (Inr (Some \<lparr>Proposal.action = action best, Proposal.params = params best,
                         Proposal.target = target best,
                         Proposal.pred_saving_pct = pred_saving_pct best,
                         Proposal.pred_latency_impact_ms = None,
                         Proposal.reason =
                           join [Txt ''; ''] why @
                           [Txt [CHR 0x20, CHR 0xE2, CHR 0x86, CHR 0x92, CHR 0x20]] @ reason best,
                         loop = ''fast'', ts = now_ts clock\<rparr>),
              self\<lparr>FastGuardrailLoop.last_action_ts :=
                     (FastGuardrailLoop.last_action_ts self)(target_key best \<mapsto> now_recorded clock)\<rparr>)))"

section \<open>Predicates used in the proofs\<close>

definition two_state :: "MMSFilter \<Rightarrow> bool" where
  "two_state f \<longleftrightarrow> MMSFilter.state f = ''transient'' \<or> MMSFilter.state f = ''persistent''"

definition scenario_params :: "MMSFilter \<Rightarrow> bool" where
  "scenario_params f \<longleftrightarrow> alpha f = 3/10 \<and> persist_ticks f = 6 \<and> MMSFilter.tau_fast f = Some 1 \<and> MMSFilter.tau_persist f = Some 2"

definition settling :: "MMSFilter \<Rightarrow> bool" where
  "settling f \<longleftrightarrow> scenario_params f \<and> MMSFilter.state f = ''transient'' \<and> 0 < MMSFilter.ema f \<and>
     ((MMSFilter.consecutive_high f = 0 \<and> MMSFilter.ema f \<le> 2) \<or>
      (MMSFilter.consecutive_high f = 1 \<and> MMSFilter.ema f \<le> 5) \<or>
      (MMSFilter.consecutive_high f = 2 \<and> MMSFilter.ema f \<le> 353/100) \<or>
      (MMSFilter.consecutive_high f = 3 \<and> MMSFilter.ema f \<le> 2501/1000))"

text \<open>The four guardrail conditions, as the survival condition of a candidate.\<close>

definition passes_guardrails :: "Settings \<Rightarrow> CurrentState \<Rightarrow> ActionCandidate \<Rightarrow> bool" where
  "passes_guardrails settings st c \<longleftrightarrow>
     dict_get (max_inlet_c st) 22 + pred_inlet_change_c c \<le> inlet_max_c settings \<and>
     dict_get (avg_latency_ms st) 180 + pred_latency_impact_ms c \<le> sla_latency_ms settings \<and>
     \<not> (pred_inlet_change_c c > 1 \<and>
        dict_get (ims_deviation st) 0 > 0.7 * dict_get (CurrentState.tau_persist st) 2) \<and>
     \<not> (risk_score c > 0.6 \<and> dict_get (recent_rollback st) False)"

text \<open>A state snapshot for the examples, after the one of \<open>tests/test_optimizer.py\<close>.\<close>

definition snapshot :: CurrentState where
  "snapshot = \<lparr>avg_inlet_c = Some 23, max_inlet_c = Some 27, avg_latency_ms = Some 180,
     j_per_prompt_wh = Some 0.5, ims_deviation = Some 0.3, mms_state = Some ''transient'',
     tau_fast = Some 1, tau_persist = Some 1.5, rack_temperatures = Some [],
     recent_rollback = Some False\<rparr>"

text \<open>
  The composite score in the words of the specification, with the weight of the savings
  and the two penalties; and a candidate with that score attached.
\<close>

definition composite_score :: "real \<Rightarrow> real \<Rightarrow> real \<Rightarrow> ActionCandidate \<Rightarrow> real" where
  "composite_score w_save w_risk w_lat c =
     w_save * pred_saving_pct c - w_risk * risk_score c
       - w_lat * \<bar>pred_latency_impact_ms c\<bar> / 100"

definition with_score :: "real \<Rightarrow> real \<Rightarrow> real \<Rightarrow> ActionCandidate \<Rightarrow> ActionCandidate" where
  "with_score w_save w_risk w_lat c = c\<lparr>score := Some (composite_score w_save w_risk w_lat c)\<rparr>"

text \<open>The unstable state of \<open>test_fast_guardrail_triggers\<close>.\<close>

definition unstable :: CurrentState where
  "unstable = \<lparr>avg_inlet_c = Some 24, max_inlet_c = Some 27, avg_latency_ms = Some 180,
     j_per_prompt_wh = None, ims_deviation = Some 2, mms_state = Some ''persistent'',
     tau_fast = Some 1, tau_persist = None, rack_temperatures = Some [],
     recent_rollback = None\<rparr>"

text \<open>A trainer holding a fitted scaler, one centre and the thresholds 1 and 2.\<close>

definition trained :: IMSTrainer where
  "trained =
     \<lparr>n_clusters = 1,
      scaler = Some \<lparr>scaler_mean = replicate 10 0, scaler_scale = replicate 10 1\<rparr>,
      kmeans = Some \<lparr>cluster_centers = [replicate 10 0]\<rparr>,
      IMSTrainer.tau_fast = Some 1, IMSTrainer.tau_persist = Some 2,
      features = FEATURE_COLUMNS\<rparr>"

text \<open>
  A trainer whose thresholds are 2 and 1, as \<open>IMSTrainer.load\<close> takes them from a
  file, or as \<open>train\<close> sets them when the percentile of \<open>tau_fast\<close> is configured
  above that of \<open>tau_persist\<close>.
\<close>

definition inverted :: IMSTrainer where
  "inverted =
     \<lparr>n_clusters = 1,
      scaler = Some \<lparr>scaler_mean = replicate 10 0, scaler_scale = replicate 10 1\<rparr>,
      kmeans = Some \<lparr>cluster_centers = [replicate 10 0]\<rparr>,
      IMSTrainer.tau_fast = Some 2, IMSTrainer.tau_persist = Some 1,
      features = FEATURE_COLUMNS\<rparr>"

section \<open>The background tasks (\<open>api/app.py\<close>)\<close>

text \<open>
  \<open>api/app.py\<close>, lines 89 to 154. \<open>lifespan\<close> starts the fast guardrail task and the
  slow optimizer task. Each task constructs its loop object once (lines 94 and 128) and
  then, at every pass of its \<open>while\<close> loop, calls that object on the current state and
  broadcasts the proposal if there is one; an exception is logged and the loop goes on.
  The state of the two tasks is their two loop objects; a pass returns the event it
  broadcasts.
\<close>

record Tasks =
  fast_loop :: FastGuardrailLoop
  slow_loop :: SlowOptimizerLoop

definition background_tasks :: Tasks where
  "background_tasks = \<lparr>fast_loop = FastGuardrailLoop_init, slow_loop = SlowOptimizerLoop_init\<rparr>"

definition fast_guardrail_loop_task ::
  "Settings \<Rightarrow> Clock \<Rightarrow> Tasks \<Rightarrow> CurrentState \<Rightarrow> (string \<times> Proposal) option \<times> Tasks" where
  "fast_guardrail_loop_task settings clock tasks current_state =
     (case evaluate settings clock (fast_loop tasks) current_state of
        (Inr (Some proposal), l) \<Rightarrow> (Some (''fast_guardrail'', proposal), tasks\<lparr>fast_loop := l\<rparr>)
      | (_, l) \<Rightarrow> (None, tasks\<lparr>fast_loop := l\<rparr>))"

definition slow_optimizer_loop_task ::
  "Settings \<Rightarrow> Clock \<Rightarrow> Tasks \<Rightarrow> CurrentState \<Rightarrow> (string \<times> Proposal) option \<times> Tasks" where
  "slow_optimizer_loop_task settings clock tasks current_state =
     (case optimize settings clock (slow_loop tasks) current_state of
        (Inr (Some proposal), l) \<Rightarrow> (Some (''slow_optimizer'', proposal), tasks\<lparr>slow_loop := l\<rparr>)
      | (_, l) \<Rightarrow> (None, tasks\<lparr>slow_loop := l\<rparr>))"

text \<open>
  Runs. A tick is the settings, the clock readings and the state snapshot of one call.
  \<open>evaluate_calls\<close> and \<open>optimize_calls\<close> are a loop object after successive
  calls; \<open>run_passes\<close> is the two tasks after their passes in any interleaving.
\<close>

type_synonym tick = "Settings \<times> Clock \<times> CurrentState"

fun evaluate_calls :: "FastGuardrailLoop \<Rightarrow> tick list \<Rightarrow> FastGuardrailLoop" where
  "evaluate_calls self [] = self"
| "evaluate_calls self ((settings, clock, current_state) # rest) =
     evaluate_calls (snd (evaluate settings clock self current_state)) rest"

fun optimize_calls :: "SlowOptimizerLoop \<Rightarrow> tick list \<Rightarrow> SlowOptimizerLoop" where
  "optimize_calls self [] = self"
| "optimize_calls self ((settings, clock, current_state) # rest) =
     optimize_calls (snd (optimize settings clock self current_state)) rest"

datatype pass = FastPass tick | SlowPass tick

fun run_passes :: "Tasks \<Rightarrow> pass list \<Rightarrow> Tasks" where
  "run_passes tasks [] = tasks"
| "run_passes tasks (FastPass (settings, clock, current_state) # rest) =
     run_passes (snd (fast_guardrail_loop_task settings clock tasks current_state)) rest"
| "run_passes tasks (SlowPass (settings, clock, current_state) # rest) =
     run_passes (snd (slow_optimizer_loop_task settings clock tasks current_state)) rest"

fun fast_ticks :: "pass list \<Rightarrow> tick list" where
  "fast_ticks [] = []"
| "fast_ticks (FastPass t # rest) = t # fast_ticks rest"
| "fast_ticks (SlowPass t # rest) = fast_ticks rest"

fun slow_ticks :: "pass list \<Rightarrow> tick list" where
  "slow_ticks [] = []"
| "slow_ticks (FastPass t # rest) = slow_ticks rest"
| "slow_ticks (SlowPass t # rest) = t # slow_ticks rest"

text \<open>The unstable state with the latency near the SLA.\<close>

definition hot :: CurrentState where
  "hot = unstable\<lparr>avg_latency_ms := Some 240\<rparr>"

section \<open>Examples and auxiliary functions for the IMS detector\<close>











section \<open>Verification\<close>

subsection \<open>The MMS filter\<close>


lemma update_unset_eq:
  assumes "MMSFilter.tau_fast self = None \<or> MMSFilter.tau_persist self = None"
  shows "update self d =
     (\<lparr>MMSResult.ema = d, MMSResult.state = ''transient'', raw_deviation = d,
       MMSResult.consecutive_high = None, MMSResult.consecutive_low = None\<rparr>, self)"
proof (cases "MMSFilter.tau_fast self")
  case None
  then show ?thesis by (simp add: update_def)
next
  case (Some tf)
  with assms have "MMSFilter.tau_persist self = None" by simp
  with Some show ?thesis by (simp add: update_def)
qed

lemma update_params:
  "alpha (snd (update f d)) = alpha f \<and>
   persist_ticks (snd (update f d)) = persist_ticks f \<and>
   MMSFilter.tau_fast (snd (update f d)) = MMSFilter.tau_fast f \<and>
   MMSFilter.tau_persist (snd (update f d)) = MMSFilter.tau_persist f"
proof (cases "MMSFilter.tau_fast f = None \<or> MMSFilter.tau_persist f = None")
  case True
  then show ?thesis by (simp add: update_unset_eq)
next
  case False
  then obtain tf tp where "MMSFilter.tau_fast f = Some tf" "MMSFilter.tau_persist f = Some tp" by auto
  then show ?thesis by (simp add: update_def Let_def)
qed

lemma update_ema:
  assumes "MMSFilter.tau_fast f = Some tf" "MMSFilter.tau_persist f = Some tp"
  shows "MMSFilter.ema (snd (update f d)) =
    (if MMSFilter.ema f = 0 then d else alpha f * d + (1 - alpha f) * MMSFilter.ema f)"
  using assms by (simp add: update_def Let_def)

lemma update_high:
  assumes "MMSFilter.tau_fast f = Some tf" "MMSFilter.tau_persist f = Some tp"
  shows "MMSFilter.consecutive_high (snd (update f d)) =
    (if MMSFilter.ema (snd (update f d)) > tp then MMSFilter.consecutive_high f + 1 else 0)"
  using assms by (simp add: update_def Let_def)

lemma update_low:
  assumes "MMSFilter.tau_fast f = Some tf" "MMSFilter.tau_persist f = Some tp"
  shows "MMSFilter.consecutive_low (snd (update f d)) =
    (if MMSFilter.ema (snd (update f d)) > tp then 0
     else if MMSFilter.ema (snd (update f d)) < tf then MMSFilter.consecutive_low f + 1 else 0)"
  using assms by (simp add: update_def Let_def)

lemma update_state:
  assumes "MMSFilter.tau_fast f = Some tf" "MMSFilter.tau_persist f = Some tp"
  shows "MMSFilter.state (snd (update f d)) =
    (if MMSFilter.state f = ''transient''
     then (if MMSFilter.consecutive_high (snd (update f d)) \<ge> persist_ticks f
           then ''persistent'' else MMSFilter.state f)
     else (if MMSFilter.consecutive_low (snd (update f d)) \<ge> persist_ticks f
           then ''transient'' else MMSFilter.state f))"
  using assms by (simp add: update_def Let_def)

lemma update_result:
  assumes "MMSFilter.tau_fast f = Some tf" "MMSFilter.tau_persist f = Some tp"
  shows "fst (update f d) =
     \<lparr>MMSResult.ema = MMSFilter.ema (snd (update f d)),
      MMSResult.state = MMSFilter.state (snd (update f d)),
      raw_deviation = d,
      MMSResult.consecutive_high = Some (MMSFilter.consecutive_high (snd (update f d))),
      MMSResult.consecutive_low = Some (MMSFilter.consecutive_low (snd (update f d)))\<rparr>"
  using assms by (simp add: update_def Let_def)


lemma two_state_update: "two_state f \<Longrightarrow> two_state (snd (update f d))"
proof (cases "MMSFilter.tau_fast f = None \<or> MMSFilter.tau_persist f = None")
  case True
  assume "two_state f"
  with True show ?thesis by (simp add: update_unset_eq)
next
  case False
  assume ts: "two_state f"
  from False obtain tf tp where th: "MMSFilter.tau_fast f = Some tf" "MMSFilter.tau_persist f = Some tp" by auto
  show ?thesis using ts unfolding two_state_def update_state [OF th] by presburger 
qed

lemma two_state_call: "two_state f \<Longrightarrow> two_state (call f c)"
proof (cases c)
  case (Update d)
  assume "two_state f"
  then show ?thesis using Update by (simp add: two_state_update)
next
  case (UpdateThresholds a b)
  assume "two_state f"
  then show ?thesis using UpdateThresholds by (simp add: two_state_def update_thresholds_def)
next
  case Reset
  then show ?thesis by (simp add: two_state_def reset_def)
qed

lemma two_state_calls: "two_state f \<Longrightarrow> two_state (calls f cs)"
  by (induction cs arbitrary: f) (simp_all add: two_state_call)

lemma two_state_init: "two_state (MMSFilter_init settings a p tf tp)"
  by (simp add: two_state_def MMSFilter_init_def)



lemma scenario_params_update: "scenario_params f \<Longrightarrow> scenario_params (snd (update f d))"
  by (simp add: scenario_params_def update_params)

lemma feed_five:
  assumes "scenario_params f" "MMSFilter.ema f = 0 \<or> MMSFilter.ema f = 5"
    and "MMSFilter.state f = (if 6 \<le> MMSFilter.consecutive_high f then ''persistent'' else ''transient'')"
    and "MMSFilter.consecutive_low f = 0"
  shows "MMSFilter.state (update_all f (replicate n 5)) =
     (if 6 \<le> MMSFilter.consecutive_high f + int n then ''persistent'' else ''transient'')"
  using assms
proof (induction n arbitrary: f)
  case 0
  then show ?case by simp
next
  case (Suc n)
  let ?g = "snd (update f 5)"
  from Suc.prems(1) have th: "MMSFilter.tau_fast f = Some 1" "MMSFilter.tau_persist f = Some 2"
    and al: "alpha f = 3/10" and pt: "persist_ticks f = 6" by (simp_all add: scenario_params_def)
  have e: "MMSFilter.ema ?g = 5"
    using Suc.prems(2) by (auto simp: update_ema [OF th] al)
  have h: "MMSFilter.consecutive_high ?g = MMSFilter.consecutive_high f + 1"
    by (simp add: update_high [OF th] e)
  have l: "MMSFilter.consecutive_low ?g = 0"
    by (simp add: update_low [OF th] e)
  have s: "MMSFilter.state ?g =
      (if 6 \<le> MMSFilter.consecutive_high ?g then ''persistent'' else ''transient'')"
    unfolding update_state [OF th] l pt h using Suc.prems(3) by simp
  have "MMSFilter.state (update_all ?g (replicate n 5)) =
     (if 6 \<le> MMSFilter.consecutive_high ?g + int n then ''persistent'' else ''transient'')"
    by (rule Suc.IH [OF scenario_params_update [OF Suc.prems(1)] _ s l]) (simp add: e)
  then show ?case by (simp add: h add.assoc)
qed


lemma settling_update:
  assumes "settling f"
  shows "settling (snd (update f (1/10)))"
proof -
  let ?g = "snd (update f (1/10))"
  from assms have sf: "scenario_params f" and st: "MMSFilter.state f = ''transient''"
    and pos: "0 < MMSFilter.ema f" by (simp_all add: settling_def)
  from sf have th: "MMSFilter.tau_fast f = Some 1" "MMSFilter.tau_persist f = Some 2"
    and al: "alpha f = 3/10" and pt: "persist_ticks f = 6" by (simp_all add: scenario_params_def)
  have e: "MMSFilter.ema ?g = 3/100 + 7/10 * MMSFilter.ema f"
    using pos by (simp add: update_ema [OF th] al)
  have h: "MMSFilter.consecutive_high ?g =
      (if 2 < MMSFilter.ema ?g then MMSFilter.consecutive_high f + 1 else 0)"
    by (rule update_high [OF th])
  from assms have bounds: "(MMSFilter.consecutive_high ?g = 0 \<and> MMSFilter.ema ?g \<le> 2) \<or>
      (MMSFilter.consecutive_high ?g = 1 \<and> MMSFilter.ema ?g \<le> 5) \<or>
      (MMSFilter.consecutive_high ?g = 2 \<and> MMSFilter.ema ?g \<le> 353/100) \<or>
      (MMSFilter.consecutive_high ?g = 3 \<and> MMSFilter.ema ?g \<le> 2501/1000)"
    unfolding settling_def h e by auto
  then have "MMSFilter.consecutive_high ?g < 6" by auto
  then have s: "MMSFilter.state ?g = ''transient''"
    unfolding update_state [OF th] pt using st by simp
  have "0 < MMSFilter.ema ?g" using pos e by simp
  with s bounds scenario_params_update [OF sf] show ?thesis by (simp add: settling_def)
qed

lemma settling_update_all: "settling f \<Longrightarrow> settling (update_all f (replicate n (1/10)))"
  by (induction n arbitrary: f) (simp_all add: settling_update)


lemma update_all_snoc: "update_all f (ds @ [d]) = snd (update (update_all f ds) d)"
  by (induction ds arbitrary: f) simp_all

lemma scenario_params_init: "scenario_params (MMSFilter_init settings (Some 0.3) (Some 6) (Some 1) (Some 2))"
  by (simp add: scenario_params_def MMSFilter_init_def or_default_def)

text \<open>
  Claim C10. When \<open>MMSFilter.tau_fast\<close> or \<open>MMSFilter.tau_persist\<close> is \<open>None\<close>, \<open>update\<close> returns
  the state \<open>transient\<close> with the raw deviation as the EMA, and the filter (EMA, state,
  both counters, history) is the one it was called on.
\<close>
theorem update_without_thresholds:
  assumes "MMSFilter.tau_fast self = None \<or> MMSFilter.tau_persist self = None"
  shows "update self deviation =
     (\<lparr>MMSResult.ema = deviation, MMSResult.state = ''transient'',
       raw_deviation = deviation,
       MMSResult.consecutive_high = None, MMSResult.consecutive_low = None\<rparr>, self)"
  using assms by (rule update_unset_eq)

text \<open>A freshly built filter without thresholds, fed the deviation 3.\<close>
theorem update_without_thresholds_witness:
  "(MMSFilter.tau_fast (MMSFilter_init default_settings None None None None) = None \<or>
    MMSFilter.tau_persist (MMSFilter_init default_settings None None None None) = None) \<and>
   update (MMSFilter_init default_settings None None None None) 3 =
     (\<lparr>MMSResult.ema = 3, MMSResult.state = ''transient'', raw_deviation = 3,
       MMSResult.consecutive_high = None, MMSResult.consecutive_low = None\<rparr>,
      MMSFilter_init default_settings None None None None)"
proof -
  have h: "MMSFilter.tau_fast (MMSFilter_init default_settings None None None None) = None \<or>
    MMSFilter.tau_persist (MMSFilter_init default_settings None None None None) = None"
    by (simp add: MMSFilter_init_def)
  show ?thesis using h update_without_thresholds [OF h, of 3] by simp
qed

text \<open>
  Claim C2. A filter starts \<open>transient\<close>; whatever is called on it, its state is
  \<open>transient\<close> or \<open>persistent\<close>; \<open>update_thresholds\<close> keeps the state; an
  \<open>update\<close> that takes it from \<open>transient\<close> to \<open>persistent\<close> leaves
  \<open>consecutive_high\<close> at \<open>persist_ticks\<close> or above, and one that takes it back
  leaves \<open>consecutive_low\<close> at \<open>persist_ticks\<close> or above. With \<open>alpha = 0.3\<close>,
  \<open>persist_ticks = 6\<close>, \<open>MMSFilter.tau_fast = 1\<close>, \<open>MMSFilter.tau_persist = 2\<close>: five updates with
  deviation 5 leave it \<open>transient\<close>, the sixth makes it \<open>persistent\<close>, and 5 followed
  by any number of 0.1 stays \<open>transient\<close>.
\<close>
theorem mms_hysteresis:
  "MMSFilter.state (MMSFilter_init settings a p tf tp) = ''transient'' \<and>
   MMSFilter.state (calls (MMSFilter_init settings a p tf tp) cs) \<in> {''transient'', ''persistent''} \<and>
   MMSFilter.state (update_thresholds f x y) = MMSFilter.state f \<and>
   (MMSFilter.tau_fast f = Some tf' \<and> MMSFilter.tau_persist f = Some tp' \<and>
    MMSFilter.state f = ''transient'' \<and> MMSFilter.state (snd (update f d)) = ''persistent''
      \<longrightarrow> persist_ticks f \<le> MMSFilter.consecutive_high (snd (update f d))) \<and>
   (MMSFilter.tau_fast f = Some tf' \<and> MMSFilter.tau_persist f = Some tp' \<and>
    MMSFilter.state f = ''persistent'' \<and> MMSFilter.state (snd (update f d)) = ''transient''
      \<longrightarrow> persist_ticks f \<le> MMSFilter.consecutive_low (snd (update f d))) \<and>
   MMSFilter.state (update_all (MMSFilter_init settings (Some 0.3) (Some 6) (Some 1) (Some 2))
      (replicate 5 5)) = ''transient'' \<and>
   MMSFilter.state (update_all (MMSFilter_init settings (Some 0.3) (Some 6) (Some 1) (Some 2))
      (replicate 6 5)) = ''persistent'' \<and>
   MMSFilter.state (update_all (MMSFilter_init settings (Some 0.3) (Some 6) (Some 1) (Some 2))
      (5 # replicate n 0.1)) = ''transient''"
proof -
  let ?f0 = "MMSFilter_init settings (Some 0.3) (Some 6) (Some 1) (Some 2)"
  have c1: "MMSFilter.state (MMSFilter_init settings a p tf tp) = ''transient''"
    by (simp add: MMSFilter_init_def)
  have c2: "MMSFilter.state (calls (MMSFilter_init settings a p tf tp) cs)
      \<in> {''transient'', ''persistent''}"
    using two_state_calls [OF two_state_init, of settings a p tf tp cs]
    by (simp add: two_state_def)
  have c3: "MMSFilter.state (update_thresholds f x y) = MMSFilter.state f"
    by (simp add: update_thresholds_def)
  have c4: "MMSFilter.tau_fast f = Some tf' \<and> MMSFilter.tau_persist f = Some tp' \<and>
    MMSFilter.state f = ''transient'' \<and> MMSFilter.state (snd (update f d)) = ''persistent''
      \<longrightarrow> persist_ticks f \<le> MMSFilter.consecutive_high (snd (update f d))"
  proof (intro impI, elim conjE)
    assume th: "MMSFilter.tau_fast f = Some tf'" "MMSFilter.tau_persist f = Some tp'"
      and s: "MMSFilter.state f = ''transient''"
      and s': "MMSFilter.state (snd (update f d)) = ''persistent''"
    show "persist_ticks f \<le> MMSFilter.consecutive_high (snd (update f d))"
    proof (rule ccontr)
      assume "\<not> ?thesis"
      then have "MMSFilter.state (snd (update f d)) = ''transient''"
        unfolding update_state [OF th] using s by simp
      with s' show False by simp
    qed
  qed
  have c5: "MMSFilter.tau_fast f = Some tf' \<and> MMSFilter.tau_persist f = Some tp' \<and>
    MMSFilter.state f = ''persistent'' \<and> MMSFilter.state (snd (update f d)) = ''transient''
      \<longrightarrow> persist_ticks f \<le> MMSFilter.consecutive_low (snd (update f d))"
  proof (intro impI, elim conjE)
    assume th: "MMSFilter.tau_fast f = Some tf'" "MMSFilter.tau_persist f = Some tp'"
      and s: "MMSFilter.state f = ''persistent''"
      and s': "MMSFilter.state (snd (update f d)) = ''transient''"
    show "persist_ticks f \<le> MMSFilter.consecutive_low (snd (update f d))"
    proof (rule ccontr)
      assume "\<not> ?thesis"
      then have "MMSFilter.state (snd (update f d)) = ''persistent''"
        unfolding update_state [OF th] using s by simp
      with s' show False by simp
    qed
  qed
  have init: "MMSFilter.ema ?f0 = 0" "MMSFilter.consecutive_high ?f0 = 0"
    "MMSFilter.consecutive_low ?f0 = 0" "MMSFilter.state ?f0 = ''transient''"
    by (simp_all add: MMSFilter_init_def)
  have five: "MMSFilter.state (update_all ?f0 (replicate n' 5)) =
     (if 6 \<le> int n' then ''persistent'' else ''transient'')" for n'
    using feed_five [OF scenario_params_init, of settings n'] init by simp
  have c6: "MMSFilter.state (update_all ?f0 (replicate 5 5)) = ''transient''"
    using five [of 5] by simp
  have c7: "MMSFilter.state (update_all ?f0 (replicate 6 5)) = ''persistent''"
    using five [of 6] by simp
  let ?f1 = "snd (update ?f0 5)"
  have th0: "MMSFilter.tau_fast ?f0 = Some 1" "MMSFilter.tau_persist ?f0 = Some 2"
    by (simp_all add: MMSFilter_init_def)
  have e1: "MMSFilter.ema ?f1 = 5" by (simp add: update_ema [OF th0] init)
  have h1: "MMSFilter.consecutive_high ?f1 = 1"
    by (simp add: update_high [OF th0] e1 init)
  have s1: "MMSFilter.state ?f1 = ''transient''"
    unfolding update_state [OF th0] h1 using init by (simp add: MMSFilter_init_def or_default_def)
  have "settling ?f1"
    unfolding settling_def using scenario_params_update [OF scenario_params_init] e1 h1 s1 by simp
  then have "settling (update_all ?f1 (replicate n (1/10)))"
    by (rule settling_update_all)
  then have c8: "MMSFilter.state (update_all ?f0 (5 # replicate n 0.1)) = ''transient''"
    by (simp add: settling_def)
  from c1 c2 c3 c4 c5 c6 c7 c8 show ?thesis by blast
qed

text \<open>The sixth high tick: a transient filter with five high ticks behind it flips.\<close>
theorem mms_hysteresis_witness:
  "MMSFilter.tau_fast \<lparr>alpha = 0.3, persist_ticks = 6, MMSFilter.tau_fast = Some 1, MMSFilter.tau_persist = Some 2,
      ema = 5, state = ''transient'', consecutive_high = 5, consecutive_low = 0,
      history = []\<rparr> = Some 1 \<and>
   MMSFilter.state (snd (update \<lparr>alpha = 0.3, persist_ticks = 6, MMSFilter.tau_fast = Some 1,
      MMSFilter.tau_persist = Some 2, ema = 5, state = ''transient'', consecutive_high = 5,
      consecutive_low = 0, history = []\<rparr> 5)) = ''persistent'' \<and>
   (6::int) \<le> MMSFilter.consecutive_high (snd (update \<lparr>alpha = 0.3, persist_ticks = 6,
      MMSFilter.tau_fast = Some 1, MMSFilter.tau_persist = Some 2, ema = 5, state = ''transient'',
      consecutive_high = 5, consecutive_low = 0, history = []\<rparr> 5))"
proof -
  let ?f = "\<lparr>alpha = 0.3, persist_ticks = 6, MMSFilter.tau_fast = Some 1, MMSFilter.tau_persist = Some 2,
      ema = 5, state = ''transient'', consecutive_high = 5, consecutive_low = 0,
      history = []\<rparr>"
  have s: "MMSFilter.state (snd (update ?f 5)) = ''persistent''"
    by (simp add: update_def Let_def)
  have "MMSFilter.tau_fast ?f = Some 1 \<and> MMSFilter.tau_persist ?f = Some 2 \<and>
    MMSFilter.state ?f = ''transient'' \<and> MMSFilter.state (snd (update ?f 5)) = ''persistent''"
    using s by simp
  then have "persist_ticks ?f \<le> MMSFilter.consecutive_high (snd (update ?f 5))"
    using mms_hysteresis [of default_settings None None None None "[]" ?f 0 0 1 2 5 0]
    by blast
  then show ?thesis using s by simp
qed

text \<open>
  Claim C3. The EMA is seeded whenever the stored EMA is zero, not only on the first
  update: after the deviations 0 and 1 the EMA is 1, where
  \<open>alpha * 1 + (1 - alpha) * 0 = 0.3\<close> is what the smoothing rule gives.
\<close>
theorem ema_reseeded_after_zero:
  "MMSFilter.ema (update_all (MMSFilter_init default_settings (Some 0.3) (Some 6) (Some 1) (Some 2)) [0]) = 0 \<and>
   MMSFilter.ema (update_all (MMSFilter_init default_settings (Some 0.3) (Some 6) (Some 1) (Some 2)) [0, 1]) = 1 \<and>
   MMSFilter.ema (update_all (MMSFilter_init default_settings (Some 0.3) (Some 6) (Some 1) (Some 2)) [0, 1])
     \<noteq> 0.3 * 1 + (1 - 0.3) *
       MMSFilter.ema (update_all (MMSFilter_init default_settings (Some 0.3) (Some 6) (Some 1) (Some 2)) [0])"
proof -
  let ?f0 = "MMSFilter_init default_settings (Some 0.3) (Some 6) (Some 1) (Some 2)"
  let ?f1 = "snd (update ?f0 0)"
  have th0: "MMSFilter.tau_fast ?f0 = Some 1" "MMSFilter.tau_persist ?f0 = Some 2"
    by (simp_all add: MMSFilter_init_def)
  have e0: "MMSFilter.ema ?f0 = 0" by (simp add: MMSFilter_init_def)
  have e1: "MMSFilter.ema ?f1 = 0" by (simp add: update_ema [OF th0] e0)
  have th1: "MMSFilter.tau_fast ?f1 = Some 1" "MMSFilter.tau_persist ?f1 = Some 2"
    using th0 by (simp_all add: update_params)
  have e2: "MMSFilter.ema (snd (update ?f1 1)) = 1" by (simp add: update_ema [OF th1] e1)
  show ?thesis using e1 e2 by simp
qed

subsection \<open>The guardrail filter\<close>

lemma guardrails_loop_step:
  "guardrails_loop settings st (c # cs) safe =
     guardrails_loop settings st cs (if passes_guardrails settings st c then safe @ [c] else safe)"
  by (simp add: passes_guardrails_def not_le mult.commute)

lemma guardrails_loop_filter:
  "guardrails_loop settings st cs safe = safe @ filter (passes_guardrails settings st) cs"
proof (induction cs arbitrary: safe)
  case Nil
  then show ?case by simp
next
  case (Cons c cs)
  show ?case unfolding guardrails_loop_step Cons.IH by simp
qed

lemma apply_guardrails_filter:
  "apply_guardrails settings cs st = filter (passes_guardrails settings st) cs"
  by (simp add: apply_guardrails_def guardrails_loop_filter)

text \<open>
  Claim C1. Every candidate that \<open>apply_guardrails\<close> returns keeps the inlet at or
  below \<open>inlet_max_c\<close>, keeps the latency at or below \<open>sla_latency_ms\<close>, does not
  raise the inlet by more than one degree while the deviation is above 0.7 times
  \<open>tau_persist\<close>, and has no risk above 0.6 after a recent rollback; a candidate
  that breaks one of the four is never returned; the output is a subsequence of the
  input. The state values are the dictionary's, or the defaults of the code when a key
  is absent.
\<close>

theorem apply_guardrails_safe:
  "(\<forall>c \<in> set (apply_guardrails settings candidates st).
      dict_get (max_inlet_c st) 22 + pred_inlet_change_c c \<le> inlet_max_c settings \<and>
      dict_get (avg_latency_ms st) 180 + pred_latency_impact_ms c \<le> sla_latency_ms settings \<and>
      \<not> (pred_inlet_change_c c > 1 \<and>
         dict_get (ims_deviation st) 0 > 0.7 * dict_get (CurrentState.tau_persist st) 2) \<and>
      \<not> (risk_score c > 0.6 \<and> dict_get (recent_rollback st) False)) \<and>
   (\<forall>c. dict_get (max_inlet_c st) 22 + pred_inlet_change_c c > inlet_max_c settings \<or>
        dict_get (avg_latency_ms st) 180 + pred_latency_impact_ms c > sla_latency_ms settings \<or>
        (pred_inlet_change_c c > 1 \<and>
         dict_get (ims_deviation st) 0 > 0.7 * dict_get (CurrentState.tau_persist st) 2) \<or>
        (risk_score c > 0.6 \<and> dict_get (recent_rollback st) False)
        \<longrightarrow> c \<notin> set (apply_guardrails settings candidates st)) \<and>
   subseq (apply_guardrails settings candidates st) candidates"
proof (intro conjI)
  show "\<forall>c \<in> set (apply_guardrails settings candidates st).
      dict_get (max_inlet_c st) 22 + pred_inlet_change_c c \<le> inlet_max_c settings \<and>
      dict_get (avg_latency_ms st) 180 + pred_latency_impact_ms c \<le> sla_latency_ms settings \<and>
      \<not> (pred_inlet_change_c c > 1 \<and>
         dict_get (ims_deviation st) 0 > 0.7 * dict_get (CurrentState.tau_persist st) 2) \<and>
      \<not> (risk_score c > 0.6 \<and> dict_get (recent_rollback st) False)"
    by (simp add: apply_guardrails_filter passes_guardrails_def)
  show "\<forall>c. dict_get (max_inlet_c st) 22 + pred_inlet_change_c c > inlet_max_c settings \<or>
        dict_get (avg_latency_ms st) 180 + pred_latency_impact_ms c > sla_latency_ms settings \<or>
        (pred_inlet_change_c c > 1 \<and>
         dict_get (ims_deviation st) 0 > 0.7 * dict_get (CurrentState.tau_persist st) 2) \<or>
        (risk_score c > 0.6 \<and> dict_get (recent_rollback st) False)
        \<longrightarrow> c \<notin> set (apply_guardrails settings candidates st)"
    by (auto simp: apply_guardrails_filter passes_guardrails_def)
  show "subseq (apply_guardrails settings candidates st) candidates"
    by (simp add: apply_guardrails_filter)
qed

text \<open>Two candidates at 27 degrees: the fan reduction survives, the 1.5 degree rise does not.\<close>

theorem apply_guardrails_safe_witness:
  "new_candidate ''decrease_fan_rpm'' [(''delta_pct'', IntV (- 3))] ''system'' 3.6 0 0.45 0.3 []
     \<in> set (apply_guardrails default_settings
         [new_candidate ''increase_supply_temp'' [(''delta_c'', FloatV 1.5)] ''system'' 6 0 1.5 0.4 [],
          new_candidate ''decrease_fan_rpm'' [(''delta_pct'', IntV (- 3))] ''system'' 3.6 0 0.45 0.3 []]
         snapshot) \<and>
   dict_get (max_inlet_c snapshot) 22 + 0.45 \<le> inlet_max_c default_settings \<and>
   new_candidate ''increase_supply_temp'' [(''delta_c'', FloatV 1.5)] ''system'' 6 0 1.5 0.4 []
     \<notin> set (apply_guardrails default_settings
         [new_candidate ''increase_supply_temp'' [(''delta_c'', FloatV 1.5)] ''system'' 6 0 1.5 0.4 [],
          new_candidate ''decrease_fan_rpm'' [(''delta_pct'', IntV (- 3))] ''system'' 3.6 0 0.45 0.3 []]
         snapshot)"
proof -
  let ?hot = "new_candidate ''increase_supply_temp'' [(''delta_c'', FloatV 1.5)] ''system'' 6 0 1.5 0.4 []"
  let ?ok = "new_candidate ''decrease_fan_rpm'' [(''delta_pct'', IntV (- 3))] ''system'' 3.6 0 0.45 0.3 []"
  have out: "apply_guardrails default_settings [?hot, ?ok] snapshot = [?ok]"
    by (simp add: apply_guardrails_def new_candidate_def snapshot_def default_settings_def
        dict_get_def)
  have "?ok \<in> set (apply_guardrails default_settings [?hot, ?ok] snapshot)"
    unfolding out by simp
  moreover from this
  have "dict_get (max_inlet_c snapshot) 22 + pred_inlet_change_c ?ok
      \<le> inlet_max_c default_settings"
    using apply_guardrails_safe [of default_settings "[?hot, ?ok]" snapshot] by blast
  moreover have "dict_get (max_inlet_c snapshot) 22 + pred_inlet_change_c ?hot
      > inlet_max_c default_settings"
    by (simp add: new_candidate_def snapshot_def default_settings_def dict_get_def)
  then have "?hot \<notin> set (apply_guardrails default_settings [?hot, ?ok] snapshot)"
    using apply_guardrails_safe [of default_settings "[?hot, ?ok]" snapshot] by blast
  ultimately show ?thesis by (simp add: new_candidate_def)
qed

subsection \<open>Ranking\<close>

lemma mset_sorted_reverse: "mset (sorted_reverse k xs) = mset xs"
  by (simp add: sorted_reverse_def)

lemma sorted_reverse_descending: "sorted_wrt (\<lambda>a b. k a \<ge> k b) (sorted_reverse k xs)"
proof -
  have "sorted (map k (sort_key k (rev xs)))" by simp
  then have "sorted_wrt (\<lambda>a b. k a \<le> k b) (sort_key k (rev xs))"
    by (simp add: sorted_map)
  then show ?thesis by (simp add: sorted_reverse_def sorted_wrt_rev)
qed

lemma sorted_reverse_stable:
  "filter (\<lambda>y. k y = v) (sorted_reverse k xs) = filter (\<lambda>y. k y = v) xs"
proof -
  have "filter (\<lambda>y. k y = v) (sorted_reverse k xs) =
      rev (filter (\<lambda>y. k y = v) (sort_key k (rev xs)))"
    by (simp add: sorted_reverse_def rev_filter)
  also have "\<dots> = rev (filter (\<lambda>y. k y = v) (rev xs))" by (simp only: sort_key_stable)
  also have "\<dots> = filter (\<lambda>y. k y = v) xs" by (simp add: rev_filter)
  finally show ?thesis .
qed

lemma assign_score_keys:
  assumes "map_of weights ''saving_pct'' = Some w_save"
    and "map_of weights ''risk_score'' = Some (- w_risk)"
    and "map_of weights ''latency_impact'' = Some (- w_lat)"
  shows "assign_score weights c = Inr (with_score w_save w_risk w_lat c)"
  using assms by (simp add: assign_score_def dict_item_def with_score_def composite_score_def)

lemma assign_scores_keys:
  assumes "map_of weights ''saving_pct'' = Some w_save"
    and "map_of weights ''risk_score'' = Some (- w_risk)"
    and "map_of weights ''latency_impact'' = Some (- w_lat)"
  shows "assign_scores weights cs = Inr (map (with_score w_save w_risk w_lat) cs)"
  by (induction cs) (simp_all add: assign_score_keys [OF assms])

lemma rank_candidates_keys:
  assumes "map_of weights ''saving_pct'' = Some w_save"
    and "map_of weights ''risk_score'' = Some (- w_risk)"
    and "map_of weights ''latency_impact'' = Some (- w_lat)"
  shows "rank_candidates cs (Some weights) =
     Inr (sorted_reverse score (map (with_score w_save w_risk w_lat) cs))"
  by (simp add: rank_candidates_def dict_get_def assign_scores_keys [OF assms] sorted_reverse_def)

lemma composite_with_score [simp]:
  "composite_score a b c (with_score a' b' c' x) = composite_score a b c x"
  by (simp add: composite_score_def with_score_def)

lemma score_with_score [simp]:
  "score (with_score a b c x) = Some (composite_score a b c x)"
  by (simp add: with_score_def)

lemma with_score_idem [simp]:
  "with_score a b c (with_score a b c x) = with_score a b c x"
  by (simp add: with_score_def composite_score_def)

lemma default_weights_keys:
  "map_of default_weights ''saving_pct'' = Some 1"
  "map_of default_weights ''risk_score'' = Some (- 0.8)"
  "map_of default_weights ''latency_impact'' = Some (- 0.3)"
  by (simp_all add: default_weights_def)

text \<open>
  Claim C6. With the weights \<open>saving_pct = w_save\<close>, \<open>risk_score = - w_risk\<close> and
  \<open>latency_impact = - w_lat\<close>, \<open>rank_candidates\<close> returns the candidates, each with
  its composite score \<open>w_save * savings - w_risk * risk - w_lat * |latency| / 100\<close>
  attached: a permutation of the input, in descending order of the score, where the
  candidates of equal score keep the order they had; ranking the list again, after
  the first call has attached the scores, gives the same list; without weights the
  triple is 1.0, 0.8, 0.3, the risk weighing more than the latency.
\<close>

theorem rank_candidates_sorted:
  assumes "map_of weights ''saving_pct'' = Some w_save"
    and "map_of weights ''risk_score'' = Some (- w_risk)"
    and "map_of weights ''latency_impact'' = Some (- w_lat)"
  shows "\<exists>ranked.
     rank_candidates candidates (Some weights) = Inr ranked \<and>
     mset ranked = mset (map (with_score w_save w_risk w_lat) candidates) \<and>
     mset (map (\<lambda>c. c\<lparr>score := None\<rparr>) ranked)
       = mset (map (\<lambda>c. c\<lparr>score := None\<rparr>) candidates) \<and>
     sorted_wrt (\<lambda>a b. composite_score w_save w_risk w_lat a
                        \<ge> composite_score w_save w_risk w_lat b) ranked \<and>
     (\<forall>v. filter (\<lambda>c. composite_score w_save w_risk w_lat c = v) ranked =
          map (with_score w_save w_risk w_lat)
            (filter (\<lambda>c. composite_score w_save w_risk w_lat c = v) candidates)) \<and>
     rank_candidates (map (with_score w_save w_risk w_lat) candidates) (Some weights)
       = Inr ranked \<and>
     rank_candidates ranked (Some weights) = Inr ranked \<and>
     rank_candidates candidates None = rank_candidates candidates (Some default_weights) \<and>
     map_of default_weights ''saving_pct'' = Some 1 \<and>
     map_of default_weights ''risk_score'' = Some (- 0.8) \<and>
     map_of default_weights ''latency_impact'' = Some (- 0.3)"
proof -
  let ?ws = "with_score w_save w_risk w_lat"
  let ?cs = "composite_score w_save w_risk w_lat"
  let ?scored = "map ?ws candidates"
  let ?ranked = "sorted_reverse score ?scored"
  have r: "rank_candidates candidates (Some weights) = Inr ?ranked"
    by (rule rank_candidates_keys [OF assms])
  have m: "mset ?ranked = mset ?scored" by (rule mset_sorted_reverse)
  have "mset (map (\<lambda>c. c\<lparr>score := None\<rparr>) ?ranked) = mset (map (\<lambda>c. c\<lparr>score := None\<rparr>) ?scored)"
    using m by (metis mset_map)
  also have "map (\<lambda>c. c\<lparr>score := None\<rparr>) ?scored = map (\<lambda>c. c\<lparr>score := None\<rparr>) candidates"
    by (simp add: with_score_def)
  finally have m0: "mset (map (\<lambda>c. c\<lparr>score := None\<rparr>) ?ranked)
      = mset (map (\<lambda>c. c\<lparr>score := None\<rparr>) candidates)" .
  have el: "score c = Some (?cs c)" if "c \<in> set ?ranked" for c
  proof -
    from that have "c \<in> set ?scored" using m by (metis set_mset_mset)
    then show ?thesis by auto
  qed
  have "sorted_wrt (\<lambda>a b. score a \<ge> score b) ?ranked" by (rule sorted_reverse_descending)
  then have s: "sorted_wrt (\<lambda>a b. ?cs a \<ge> ?cs b) ?ranked"
    by (rule sorted_wrt_mono_rel [rotated]) (simp add: el)
  have st: "filter (\<lambda>c. ?cs c = v) ?ranked = map ?ws (filter (\<lambda>c. ?cs c = v) candidates)" for v
  proof -
    have "filter (\<lambda>c. ?cs c = v) ?ranked = filter (\<lambda>c. score c = Some v) ?ranked"
      by (rule filter_cong) (simp_all add: el)
    also have "\<dots> = filter (\<lambda>c. score c = Some v) ?scored" by (rule sorted_reverse_stable)
    also have "\<dots> = map ?ws (filter (\<lambda>c. ?cs c = v) candidates)"
      by (simp add: filter_map comp_def)
    finally show ?thesis .
  qed
  have again: "rank_candidates ?scored (Some weights) = Inr ?ranked"
    by (simp add: rank_candidates_keys [OF assms] comp_def)
  have fixp: "map ?ws ?ranked = ?ranked"
    by (rule map_idI) (auto simp: with_score_def dest!: el)
  have twice: "rank_candidates ?ranked (Some weights) = Inr ?ranked"
  proof -
    have "rank_candidates ?ranked (Some weights) = Inr (sorted_reverse score (map ?ws ?ranked))"
      by (rule rank_candidates_keys [OF assms])
    also have "\<dots> = Inr (sorted_reverse score ?ranked)" by (simp only: fixp)
    also have "sorted_reverse score ?ranked = ?ranked"
    proof -
      have "sorted (map score (rev ?ranked))"
        using sorted_reverse_descending [of score ?scored]
        by (simp add: sorted_map sorted_wrt_rev)
      then have "sort_key score (rev ?ranked) = rev ?ranked"
        by (rule sort_key_id_if_sorted)
      then show ?thesis by (simp add: sorted_reverse_def [of score ?ranked])
    qed
    finally show ?thesis .
  qed
  have d: "rank_candidates candidates None = rank_candidates candidates (Some default_weights)"
    by (simp add: rank_candidates_def dict_get_def)
  from r m m0 s st again twice d default_weights_keys show ?thesis by blast
qed

text \<open>
  The two candidates of \<open>test_action_candidate_ranking\<close>, the riskier one first: the
  ranking puts the batch window (score 5.804) before the fan reduction (score 5.76).
\<close>

theorem rank_candidates_sorted_witness:
  "map_of default_weights ''saving_pct'' = Some 1 \<and>
   map_of default_weights ''risk_score'' = Some (- 0.8) \<and>
   map_of default_weights ''latency_impact'' = Some (- 0.3) \<and>
   rank_candidates
     [new_candidate ''decrease_fan_rpm'' [(''delta_pct'', IntV (- 5))] ''system'' 6 0 0.75 0.3 [Txt ''Test''],
      new_candidate ''increase_batch_window'' [(''delta_ms'', IntV 30)] ''system'' 6 12 0.1 0.2 [Txt ''Test'']]
     (Some default_weights) =
   Inr [(new_candidate ''increase_batch_window'' [(''delta_ms'', IntV 30)] ''system'' 6 12 0.1 0.2 [Txt ''Test''])
          \<lparr>score := Some 5.804\<rparr>,
        (new_candidate ''decrease_fan_rpm'' [(''delta_pct'', IntV (- 5))] ''system'' 6 0 0.75 0.3 [Txt ''Test''])
          \<lparr>score := Some 5.76\<rparr>] \<and>
   composite_score 1 0.8 0.3
     ((new_candidate ''increase_batch_window'' [(''delta_ms'', IntV 30)] ''system'' 6 12 0.1 0.2 [Txt ''Test''])
          \<lparr>score := Some 5.804\<rparr>)
   \<ge> composite_score 1 0.8 0.3
     ((new_candidate ''decrease_fan_rpm'' [(''delta_pct'', IntV (- 5))] ''system'' 6 0 0.75 0.3 [Txt ''Test''])
          \<lparr>score := Some 5.76\<rparr>)"
proof -
  let ?fan = "new_candidate ''decrease_fan_rpm'' [(''delta_pct'', IntV (- 5))] ''system'' 6 0 0.75 0.3 [Txt ''Test'']"
  let ?batch = "new_candidate ''increase_batch_window'' [(''delta_ms'', IntV 30)] ''system'' 6 12 0.1 0.2 [Txt ''Test'']"
  have k: "map_of default_weights ''saving_pct'' = Some 1"
    "map_of default_weights ''risk_score'' = Some (- 0.8)"
    "map_of default_weights ''latency_impact'' = Some (- 0.3)"
    by (simp_all add: default_weights_def)
  have c: "rank_candidates [?fan, ?batch] (Some default_weights) =
      Inr [?batch\<lparr>score := Some 5.804\<rparr>, ?fan\<lparr>score := Some 5.76\<rparr>]"
    by (simp add: rank_candidates_def assign_score_def dict_item_def default_weights_def
        dict_get_def sorted_reverse_def new_candidate_def)
  from rank_candidates_sorted [OF k, of "[?fan, ?batch]"]
  obtain ranked where r: "rank_candidates [?fan, ?batch] (Some default_weights) = Inr ranked"
    and s: "sorted_wrt (\<lambda>a b. composite_score 1 0.8 0.3 a \<ge> composite_score 1 0.8 0.3 b) ranked"
    by blast
  from r c have "ranked = [?batch\<lparr>score := Some 5.804\<rparr>, ?fan\<lparr>score := Some 5.76\<rparr>]"
    by simp
  with s have "composite_score 1 0.8 0.3 (?batch\<lparr>score := Some 5.804\<rparr>)
      \<ge> composite_score 1 0.8 0.3 (?fan\<lparr>score := Some 5.76\<rparr>)"
    by simp
  with k c show ?thesis by simp
qed

subsection \<open>The loops\<close>

lemma slow_best_skips:
  assumes "global_kill_switch settings \<or> mms_state st = Some ''persistent'' \<or>
     dict_get (avg_latency_ms st) 180 > 0.95 * sla_latency_ms settings"
  shows "slow_best settings st = Inr None"
  using assms by (auto simp: slow_best_def dict_get_def)

text \<open>
  Claim C7. \<open>optimize\<close> returns no proposal, and leaves its rate-limit map as it was,
  when the kill switch is engaged, when \<open>mms_state\<close> is \<open>persistent\<close>, or when the
  average latency (180 when the key is absent) is above 0.95 times the SLA latency:
  none of the three depends on the candidates.
\<close>

theorem optimize_skips:
  assumes "global_kill_switch settings \<or> mms_state st = Some ''persistent'' \<or>
     dict_get (avg_latency_ms st) 180 > 0.95 * sla_latency_ms settings"
  shows "optimize settings clock self st = (Inr None, self)"
  by (simp add: optimize_def slow_best_skips [OF assms])

text \<open>A persistent state with latency and thermal margin: still no proposal.\<close>

theorem optimize_skips_witness:
  "mms_state unstable = Some ''persistent'' \<and>
   optimize default_settings \<lparr>now_elapsed = 0, now_recorded = 0, now_ts = 0\<rparr>
     SlowOptimizerLoop_init unstable = (Inr None, SlowOptimizerLoop_init)"
proof -
  have h: "mms_state unstable = Some ''persistent''" by (simp add: unstable_def)
  then have "global_kill_switch default_settings \<or> mms_state unstable = Some ''persistent'' \<or>
     dict_get (avg_latency_ms unstable) 180 > 0.95 * sla_latency_ms default_settings"
    by simp
  from optimize_skips [OF this] h show ?thesis by simp
qed

lemma evaluate_emits:
  assumes "evaluate s clk L st = (Inr (Some p), L1)"
  shows "\<exists>why best. fast_best s st = Inr (Some (why, best)) \<and>
     Proposal.action p = action best \<and> Proposal.target p = target best \<and>
     L1 = L\<lparr>FastGuardrailLoop.last_action_ts :=
            (FastGuardrailLoop.last_action_ts L)(target_key best \<mapsto> now_recorded clk)\<rparr>"
proof (cases "fast_best s st")
  case (Inl e)
  with assms show ?thesis by (simp add: evaluate_def)
next
  case (Inr r)
  show ?thesis
  proof (cases r)
    case None
    with Inr assms show ?thesis by (simp add: evaluate_def)
  next
    case (Some wb)
    obtain why best where wb: "wb = (why, best)" by (cases wb)
    from assms Inr Some wb show ?thesis
      by (auto simp: evaluate_def split: if_splits)
  qed
qed

lemma optimize_emits:
  assumes "optimize s clk L st = (Inr (Some p), L1)"
  shows "\<exists>best. slow_best s st = Inr (Some best) \<and>
     Proposal.action p = action best \<and> Proposal.target p = target best \<and>
     L1 = L\<lparr>SlowOptimizerLoop.last_action_ts :=
            (SlowOptimizerLoop.last_action_ts L)(target_key best \<mapsto> now_recorded clk)\<rparr>"
proof (cases "slow_best s st")
  case (Inl e)
  with assms show ?thesis by (simp add: optimize_def)
next
  case (Inr r)
  show ?thesis
  proof (cases r)
    case None
    with Inr assms show ?thesis by (simp add: optimize_def)
  next
    case (Some best)
    from assms Inr Some show ?thesis
      by (auto simp: optimize_def split: if_splits)
  qed
qed

lemma evaluate_suppressed:
  assumes "fast_best s st = Inr (Some (why, best))"
    and "FastGuardrailLoop.last_action_ts L (target_key best) = Some t"
    and "now_elapsed clk - t < 60"
  shows "evaluate s clk L st = (Inr None, L)"
  using assms by (simp add: evaluate_def)

lemma optimize_suppressed:
  assumes "slow_best s st = Inr (Some best)"
    and "SlowOptimizerLoop.last_action_ts L (target_key best) = Some t"
    and "now_elapsed clk - t < of_int (write_rate_limit_s s)"
  shows "optimize s clk L st = (Inr None, L)"
  using assms by (simp add: optimize_def)

lemma gen_unstable:
  "generate_candidates default_settings unstable ''stabilize'' =
    [new_candidate ''increase_batch_window'' [(''delta_ms'', IntV 20)] ''system'' 4 8 0.1 0.2
       [Txt ''Increase batch window by '', IntP 20, Txt ''ms to improve throughput efficiency''],
     new_candidate ''increase_batch_window'' [(''delta_ms'', IntV 30)] ''system'' 6 12 0.1 0.2
       [Txt ''Increase batch window by '', IntP 30, Txt ''ms to improve throughput efficiency''],
     new_candidate ''increase_batch_window'' [(''delta_ms'', IntV 40)] ''system'' 8 16 0.1 0.2
       [Txt ''Increase batch window by '', IntP 40, Txt ''ms to improve throughput efficiency''],
     new_candidate ''pause_low_priority_jobs''
       [(''priority_threshold'', IntV 3), (''max_pause_pct'', IntV 10)] ''scheduler'' 8 (- 20) (- 1.5) 0.7
       [Txt ''Pause priority>='', IntP 3, Txt '' jobs to reduce thermal stress''],
     new_candidate ''pause_low_priority_jobs''
       [(''priority_threshold'', IntV 4), (''max_pause_pct'', IntV 10)] ''scheduler'' 8 (- 20) (- 1.5) 0.7
       [Txt ''Pause priority>='', IntP 4, Txt '' jobs to reduce thermal stress'']]"
  by (simp add: generate_candidates_def unstable_def default_settings_def dict_get_def Let_def)

lemma fast_best_unstable:
  "fast_best default_settings unstable =
     Inr (Some ([[Txt ''IMS deviation '', FixedP 3 2, Txt '' > tau_fast '', FixedP 3 1],
                 [Txt ''MMS state is PERSISTENT'']],
                (new_candidate ''increase_batch_window'' [(''delta_ms'', IntV 40)] ''system'' 8 16 0.1 0.2
                   [Txt ''Increase batch window by '', IntP 40,
                    Txt ''ms to improve throughput efficiency''])\<lparr>score := Some 7.792\<rparr>))"
  unfolding fast_best_def gen_unstable
  by (simp add: unstable_def default_settings_def dict_get_def Let_def rank_candidates_def
      assign_score_def dict_item_def default_weights_def sorted_reverse_def new_candidate_def)

subsection \<open>Classification\<close>

lemma trained_tau_fast: "IMSTrainer.tau_fast trained = Some 1"
  by (simp add: trained_def)

lemma trained_tau_persist: "IMSTrainer.tau_persist trained = Some 2"
  by (simp add: trained_def)

text \<open>
  Claim C5 as stated fails for a model whose thresholds are not in order: with
  \<open>tau_fast = 2\<close> and \<open>tau_persist = 1\<close> a scorer is built, and the deviation 3/2,
  which is at least \<open>tau_persist\<close>, is classified \<open>nominal\<close> and not
  \<open>critical\<close>.
\<close>

theorem classify_deviation_inverted:
  "IMSScorer_init inverted = Inr \<lparr>trainer = inverted\<rparr> \<and>
   IMSTrainer.tau_persist inverted = Some 1 \<and> (1::real) \<le> 3 / 2 \<and>
   classify_deviation \<lparr>trainer = inverted\<rparr> (3 / 2) = Inr ''nominal''"
  by (simp add: IMSScorer_init_def classify_deviation_def inverted_def)

text \<open>
  Claim C5, amended. A scorer exists only for a trainer holding both thresholds. For
  such a model and every deviation \<open>d\<close>, \<open>classify_deviation\<close> returns one of the
  three classes: \<open>nominal\<close> exactly when \<open>d < tau_fast\<close>, \<open>warning\<close> exactly
  when \<open>tau_fast \<le> d < tau_persist\<close>, and \<open>critical\<close> exactly when \<open>d\<close> is at
  least \<open>tau_persist\<close> and at least \<open>tau_fast\<close>. The method reads the model and
  assigns nothing, so the classification is a function of the model and \<open>d\<close>: a
  second call returns the same class.
\<close>

theorem classify_deviation_ranges:
  assumes "IMSScorer_init tr = Inr sc"
  shows "\<exists>tf tp c. IMSTrainer.tau_fast tr = Some tf \<and> IMSTrainer.tau_persist tr = Some tp \<and>
     classify_deviation sc d = Inr c \<and> c \<in> {''nominal'', ''warning'', ''critical''} \<and>
     (c = ''nominal'' \<longleftrightarrow> d < tf) \<and>
     (c = ''warning'' \<longleftrightarrow> tf \<le> d \<and> d < tp) \<and>
     (c = ''critical'' \<longleftrightarrow> tp \<le> d \<and> tf \<le> d)"
proof -
  from assms obtain tf tp where
    t: "IMSTrainer.tau_fast tr = Some tf" "IMSTrainer.tau_persist tr = Some tp"
    and sc: "sc = \<lparr>trainer = tr\<rparr>"
    by (auto simp: IMSScorer_init_def split: if_splits)
  show ?thesis
    using t by (auto simp: sc classify_deviation_def not_less)
qed

text \<open>Thresholds 1 and 2: the deviation 5/2 is critical.\<close>

theorem classify_deviation_ranges_witness:
  "IMSScorer_init trained = Inr \<lparr>trainer = trained\<rparr> \<and>
   classify_deviation \<lparr>trainer = trained\<rparr> (5 / 2) = Inr ''critical''"
proof -
  have i: "IMSScorer_init trained = Inr \<lparr>trainer = trained\<rparr>"
    by (simp add: IMSScorer_init_def trained_tau_fast trained_tau_persist)
  from classify_deviation_ranges [OF i, of "5 / 2"]
  have "classify_deviation \<lparr>trainer = trained\<rparr> (5 / 2) = Inr ''critical''"
    unfolding trained_tau_fast trained_tau_persist by auto
  with i show ?thesis by simp
qed

subsection \<open>Rate limits\<close>

lemma evaluate_map:
  "FastGuardrailLoop.last_action_ts (snd (evaluate s clk L st)) k =
     FastGuardrailLoop.last_action_ts L k \<or>
   FastGuardrailLoop.last_action_ts (snd (evaluate s clk L st)) k = Some (now_recorded clk)"
proof (cases "fast_best s st")
  case (Inl e)
  then show ?thesis by (simp add: evaluate_def)
next
  case (Inr r)
  show ?thesis
  proof (cases r)
    case None
    with Inr show ?thesis by (simp add: evaluate_def)
  next
    case (Some wb)
    obtain why best where "wb = (why, best)" by (cases wb)
    with Inr Some show ?thesis by (simp add: evaluate_def)
  qed
qed

lemma optimize_map:
  "SlowOptimizerLoop.last_action_ts (snd (optimize s clk L st)) k =
     SlowOptimizerLoop.last_action_ts L k \<or>
   SlowOptimizerLoop.last_action_ts (snd (optimize s clk L st)) k = Some (now_recorded clk)"
proof (cases "slow_best s st")
  case (Inl e)
  then show ?thesis by (simp add: optimize_def)
next
  case (Inr r)
  show ?thesis
  proof (cases r)
    case None
    with Inr show ?thesis by (simp add: optimize_def)
  next
    case (Some best)
    with Inr show ?thesis by (simp add: optimize_def)
  qed
qed

lemma evaluate_calls_keeps:
  assumes "FastGuardrailLoop.last_action_ts F k = Some t" and "t0 \<le> t"
    and "\<forall>(s, clk, st) \<in> set cs. t0 \<le> now_recorded clk"
  shows "\<exists>t'. FastGuardrailLoop.last_action_ts (evaluate_calls F cs) k = Some t' \<and> t0 \<le> t'"
  using assms
proof (induction cs arbitrary: F t)
  case Nil
  then show ?case by simp
next
  case (Cons c cs)
  obtain s clk st where c: "c = (s, clk, st)" by (cases c)
  from Cons.prems(3) c have rec: "t0 \<le> now_recorded clk"
    and rest: "\<forall>(s, clk, st) \<in> set cs. t0 \<le> now_recorded clk" by auto
  from evaluate_map [of s clk F st k] Cons.prems(1,2) rec
  obtain t1 where "FastGuardrailLoop.last_action_ts (snd (evaluate s clk F st)) k = Some t1"
    and "t0 \<le> t1" by auto
  from Cons.IH [OF this rest] show ?case by (simp add: c)
qed

lemma optimize_calls_keeps:
  assumes "SlowOptimizerLoop.last_action_ts S k = Some t" and "t0 \<le> t"
    and "\<forall>(s, clk, st) \<in> set cs. t0 \<le> now_recorded clk"
  shows "\<exists>t'. SlowOptimizerLoop.last_action_ts (optimize_calls S cs) k = Some t' \<and> t0 \<le> t'"
  using assms
proof (induction cs arbitrary: S t)
  case Nil
  then show ?case by simp
next
  case (Cons c cs)
  obtain s clk st where c: "c = (s, clk, st)" by (cases c)
  from Cons.prems(3) c have rec: "t0 \<le> now_recorded clk"
    and rest: "\<forall>(s, clk, st) \<in> set cs. t0 \<le> now_recorded clk" by auto
  from optimize_map [of s clk S st k] Cons.prems(1,2) rec
  obtain t1 where "SlowOptimizerLoop.last_action_ts (snd (optimize s clk S st)) k = Some t1"
    and "t0 \<le> t1" by auto
  from Cons.IH [OF this rest] show ?case by (simp add: c)
qed

lemma fast_loop_run_passes:
  "fast_loop (run_passes tasks ps) = evaluate_calls (fast_loop tasks) (fast_ticks ps)"
proof (induction tasks ps rule: run_passes.induct)
  case (1 tasks)
  show ?case by simp
next
  case (2 tasks settings clock current_state rest)
  then show ?case by (simp add: fast_guardrail_loop_task_def split: prod.splits sum.splits option.splits)
next
  case (3 tasks settings clock current_state rest)
  then show ?case by (simp add: slow_optimizer_loop_task_def split: prod.splits sum.splits option.splits)
qed

lemma slow_loop_run_passes:
  "slow_loop (run_passes tasks ps) = optimize_calls (slow_loop tasks) (slow_ticks ps)"
proof (induction tasks ps rule: run_passes.induct)
  case (1 tasks)
  show ?case by simp
next
  case (2 tasks settings clock current_state rest)
  then show ?case by (simp add: fast_guardrail_loop_task_def split: prod.splits sum.splits option.splits)
next
  case (3 tasks settings clock current_state rest)
  then show ?case by (simp add: slow_optimizer_loop_task_def split: prod.splits sum.splits option.splits)
qed

lemma evaluate_fires:
  assumes "fast_best s st = Inr (Some (why, best))"
    and "FastGuardrailLoop.last_action_ts L (target_key best) = None"
  shows "\<exists>p L1. evaluate s clk L st = (Inr (Some p), L1) \<and>
     Proposal.action p = action best \<and> Proposal.target p = target best"
  using assms by (simp add: evaluate_def)

lemma optimize_fires:
  assumes "slow_best s st = Inr (Some best)"
    and "SlowOptimizerLoop.last_action_ts L (target_key best) = None"
  shows "\<exists>p L1. optimize s clk L st = (Inr (Some p), L1) \<and>
     Proposal.action p = action best \<and> Proposal.target p = target best"
  using assms by (simp add: optimize_def)

lemma gen_hot:
  "generate_candidates default_settings hot ''stabilize'' =
    [new_candidate ''pause_low_priority_jobs''
       [(''priority_threshold'', IntV 3), (''max_pause_pct'', IntV 10)] ''scheduler'' 8 (- 20) (- 1.5) 0.7
       [Txt ''Pause priority>='', IntP 3, Txt '' jobs to reduce thermal stress''],
     new_candidate ''pause_low_priority_jobs''
       [(''priority_threshold'', IntV 4), (''max_pause_pct'', IntV 10)] ''scheduler'' 8 (- 20) (- 1.5) 0.7
       [Txt ''Pause priority>='', IntP 4, Txt '' jobs to reduce thermal stress'']]"
  by (simp add: generate_candidates_def hot_def unstable_def default_settings_def dict_get_def Let_def)

lemma fast_best_hot:
  "fast_best default_settings hot =
     Inr (Some ([[Txt ''IMS deviation '', FixedP 3 2, Txt '' > tau_fast '', FixedP 3 1],
                 [Txt ''MMS state is PERSISTENT'']],
                (new_candidate ''pause_low_priority_jobs''
                   [(''priority_threshold'', IntV 3), (''max_pause_pct'', IntV 10)] ''scheduler''
                   8 (- 20) (- 1.5) 0.7
                   [Txt ''Pause priority>='', IntP 3,
                    Txt '' jobs to reduce thermal stress''])\<lparr>score := Some 7.38\<rparr>))"
  unfolding fast_best_def gen_hot
  by (simp add: hot_def unstable_def default_settings_def dict_get_def Let_def rank_candidates_def
      assign_score_def dict_item_def default_weights_def sorted_reverse_def new_candidate_def)

lemma gen_snapshot:
  "generate_candidates default_settings snapshot ''reduce_j_per_prompt'' =
    [new_candidate ''increase_batch_window'' [(''delta_ms'', IntV 20)] ''system'' 4 8 0.1 0.2
       [Txt ''Increase batch window by '', IntP 20, Txt ''ms to improve throughput efficiency''],
     new_candidate ''increase_batch_window'' [(''delta_ms'', IntV 30)] ''system'' 6 12 0.1 0.2
       [Txt ''Increase batch window by '', IntP 30, Txt ''ms to improve throughput efficiency''],
     new_candidate ''increase_batch_window'' [(''delta_ms'', IntV 40)] ''system'' 8 16 0.1 0.2
       [Txt ''Increase batch window by '', IntP 40, Txt ''ms to improve throughput efficiency'']]"
  by (simp add: generate_candidates_def snapshot_def default_settings_def dict_get_def Let_def)

lemma slow_best_snapshot:
  "slow_best default_settings snapshot =
     Inr (Some ((new_candidate ''increase_batch_window'' [(''delta_ms'', IntV 40)] ''system'' 8 16 0.1 0.2
                   [Txt ''Increase batch window by '', IntP 40,
                    Txt ''ms to improve throughput efficiency''])\<lparr>score := Some 7.792\<rparr>))"
  unfolding slow_best_def gen_snapshot
  by (simp add: snapshot_def default_settings_def dict_get_def Let_def rank_candidates_def
      apply_guardrails_def
      assign_score_def dict_item_def default_weights_def sorted_reverse_def new_candidate_def)

text \<open>
  Claim C8. On one fast loop object: if a call emitted a proposal, and a later call,
  after any calls in between whose recorded times are not before that of the emitting
  call, selects a candidate with the same \<open>action:target\<close> key less than 60 seconds
  after the recorded time, then the later call returns nothing and leaves the map alone;
  so no second proposal for the key comes within the window. The same on one slow loop
  object, with \<open>write_rate_limit_s\<close> (120 by default) as the window. Each loop keeps
  its own map: in every interleaving of the passes of the two tasks the fast loop object
  is what its own calls alone make it, and so is the slow one; whatever the fast loop
  has fired, a slow loop without an entry for its key proposes it, and conversely.
\<close>

theorem rate_limit_suppression:
  "(evaluate s1 clk1 F st1 = (Inr (Some p), F1) \<and>
    (\<forall>(s, clk, st) \<in> set between. now_recorded clk1 \<le> now_recorded clk) \<and>
    fast_best s2 st2 = Inr (Some (why2, best2)) \<and>
    target_key best2 = Proposal.action p @ '':'' @ Proposal.target p \<and>
    now_elapsed clk2 - now_recorded clk1 < 60
      \<longrightarrow> evaluate s2 clk2 (evaluate_calls F1 between) st2
            = (Inr None, evaluate_calls F1 between)) \<and>
   (optimize s1 clk1 S st1 = (Inr (Some q), S1) \<and>
    (\<forall>(s, clk, st) \<in> set between. now_recorded clk1 \<le> now_recorded clk) \<and>
    slow_best s2 st2 = Inr (Some best3) \<and>
    target_key best3 = Proposal.action q @ '':'' @ Proposal.target q \<and>
    now_elapsed clk2 - now_recorded clk1 < of_int (write_rate_limit_s s2)
      \<longrightarrow> optimize s2 clk2 (optimize_calls S1 between) st2
            = (Inr None, optimize_calls S1 between)) \<and>
   write_rate_limit_s default_settings = 120 \<and>
   fast_loop (run_passes tasks passes) = evaluate_calls (fast_loop tasks) (fast_ticks passes) \<and>
   slow_loop (run_passes tasks passes) = optimize_calls (slow_loop tasks) (slow_ticks passes) \<and>
   (slow_ticks passes = [] \<and> slow_best s2 st2 = Inr (Some best3) \<and>
    SlowOptimizerLoop.last_action_ts (slow_loop tasks) (target_key best3) = None
      \<longrightarrow> (\<exists>r tasks1. slow_optimizer_loop_task s2 clk2 (run_passes tasks passes) st2
                         = (Some (''slow_optimizer'', r), tasks1) \<and>
                       Proposal.action r = action best3 \<and> Proposal.target r = target best3)) \<and>
   (fast_ticks passes = [] \<and> fast_best s2 st2 = Inr (Some (why2, best2)) \<and>
    FastGuardrailLoop.last_action_ts (fast_loop tasks) (target_key best2) = None
      \<longrightarrow> (\<exists>r tasks1. fast_guardrail_loop_task s2 clk2 (run_passes tasks passes) st2
                         = (Some (''fast_guardrail'', r), tasks1) \<and>
                       Proposal.action r = action best2 \<and> Proposal.target r = target best2))"
proof (intro conjI impI)
  assume a: "evaluate s1 clk1 F st1 = (Inr (Some p), F1) \<and>
    (\<forall>(s, clk, st) \<in> set between. now_recorded clk1 \<le> now_recorded clk) \<and>
    fast_best s2 st2 = Inr (Some (why2, best2)) \<and>
    target_key best2 = Proposal.action p @ '':'' @ Proposal.target p \<and>
    now_elapsed clk2 - now_recorded clk1 < 60"
  then obtain why best where b: "Proposal.action p = action best"
      "Proposal.target p = target best"
      "F1 = F\<lparr>FastGuardrailLoop.last_action_ts :=
            (FastGuardrailLoop.last_action_ts F)(target_key best \<mapsto> now_recorded clk1)\<rparr>"
    using evaluate_emits [of s1 clk1 F st1 p F1] by blast
  from a b have "target_key best2 = target_key best" by (simp add: target_key_def)
  with b have "FastGuardrailLoop.last_action_ts F1 (target_key best2) = Some (now_recorded clk1)"
    by simp
  from evaluate_calls_keeps [OF this order_refl] a
  obtain t where t: "FastGuardrailLoop.last_action_ts (evaluate_calls F1 between) (target_key best2)
      = Some t" "now_recorded clk1 \<le> t" by blast
  with a have "now_elapsed clk2 - t < 60" by simp
  with a t show "evaluate s2 clk2 (evaluate_calls F1 between) st2
      = (Inr None, evaluate_calls F1 between)"
    using evaluate_suppressed by blast
next
  assume a: "optimize s1 clk1 S st1 = (Inr (Some q), S1) \<and>
    (\<forall>(s, clk, st) \<in> set between. now_recorded clk1 \<le> now_recorded clk) \<and>
    slow_best s2 st2 = Inr (Some best3) \<and>
    target_key best3 = Proposal.action q @ '':'' @ Proposal.target q \<and>
    now_elapsed clk2 - now_recorded clk1 < of_int (write_rate_limit_s s2)"
  then obtain best where b: "Proposal.action q = action best"
      "Proposal.target q = target best"
      "S1 = S\<lparr>SlowOptimizerLoop.last_action_ts :=
            (SlowOptimizerLoop.last_action_ts S)(target_key best \<mapsto> now_recorded clk1)\<rparr>"
    using optimize_emits [of s1 clk1 S st1 q S1] by blast
  from a b have "target_key best3 = target_key best" by (simp add: target_key_def)
  with b have "SlowOptimizerLoop.last_action_ts S1 (target_key best3) = Some (now_recorded clk1)"
    by simp
  from optimize_calls_keeps [OF this order_refl] a
  obtain t where t: "SlowOptimizerLoop.last_action_ts (optimize_calls S1 between) (target_key best3)
      = Some t" "now_recorded clk1 \<le> t" by blast
  with a have "now_elapsed clk2 - t < of_int (write_rate_limit_s s2)" by simp
  with a t show "optimize s2 clk2 (optimize_calls S1 between) st2
      = (Inr None, optimize_calls S1 between)"
    using optimize_suppressed by blast
next
  show "write_rate_limit_s default_settings = 120" by (simp add: default_settings_def)
  show "fast_loop (run_passes tasks passes) = evaluate_calls (fast_loop tasks) (fast_ticks passes)"
    by (rule fast_loop_run_passes)
  show "slow_loop (run_passes tasks passes) = optimize_calls (slow_loop tasks) (slow_ticks passes)"
    by (rule slow_loop_run_passes)
next
  assume a: "slow_ticks passes = [] \<and> slow_best s2 st2 = Inr (Some best3) \<and>
    SlowOptimizerLoop.last_action_ts (slow_loop tasks) (target_key best3) = None"
  then have "slow_loop (run_passes tasks passes) = slow_loop tasks"
    by (simp add: slow_loop_run_passes)
  with a optimize_fires [of s2 st2 best3 "slow_loop (run_passes tasks passes)" clk2]
  show "\<exists>r tasks1. slow_optimizer_loop_task s2 clk2 (run_passes tasks passes) st2
                         = (Some (''slow_optimizer'', r), tasks1) \<and>
                       Proposal.action r = action best3 \<and> Proposal.target r = target best3"
    by (auto simp: slow_optimizer_loop_task_def)
next
  assume a: "fast_ticks passes = [] \<and> fast_best s2 st2 = Inr (Some (why2, best2)) \<and>
    FastGuardrailLoop.last_action_ts (fast_loop tasks) (target_key best2) = None"
  then have "fast_loop (run_passes tasks passes) = fast_loop tasks"
    by (simp add: fast_loop_run_passes)
  with a evaluate_fires [of s2 st2 why2 best2 "fast_loop (run_passes tasks passes)" clk2]
  show "\<exists>r tasks1. fast_guardrail_loop_task s2 clk2 (run_passes tasks passes) st2
                         = (Some (''fast_guardrail'', r), tasks1) \<and>
                       Proposal.action r = action best2 \<and> Proposal.target r = target best2"
    by (auto simp: fast_guardrail_loop_task_def)
qed

text \<open>
  The fast loop proposes the 40 ms batch window at time 0 on the unstable state and,
  with the latency near the SLA, the pause of low priority jobs at time 10; asked again
  at time 20 on the unstable state it proposes nothing. The slow loop proposes the batch
  window at time 0, skips a persistent state at time 50, and proposes nothing at time
  100. After the fast loop fired the batch window, the slow loop still proposes it, and
  the other way round.
\<close>

theorem rate_limit_suppression_witness:
  "(case evaluate default_settings \<lparr>now_elapsed = 0, now_recorded = 0, now_ts = 0\<rparr>
           FastGuardrailLoop_init unstable of
      (Inr (Some p), F1) \<Rightarrow>
        Proposal.action p = ''increase_batch_window'' \<and> Proposal.target p = ''system'' \<and>
        (case evaluate default_settings \<lparr>now_elapsed = 10, now_recorded = 10, now_ts = 10\<rparr> F1 hot of
           (Inr (Some p2), F2) \<Rightarrow>
             Proposal.action p2 = ''pause_low_priority_jobs'' \<and>
             Proposal.target p2 = ''scheduler'' \<and>
             evaluate default_settings \<lparr>now_elapsed = 20, now_recorded = 20, now_ts = 20\<rparr> F2 unstable
               = (Inr None, F2)
         | _ \<Rightarrow> False)
    | _ \<Rightarrow> False) \<and>
   (case optimize default_settings \<lparr>now_elapsed = 0, now_recorded = 0, now_ts = 0\<rparr>
           SlowOptimizerLoop_init snapshot of
      (Inr (Some q), S1) \<Rightarrow>
        Proposal.action q = ''increase_batch_window'' \<and> Proposal.target q = ''system'' \<and>
        optimize default_settings \<lparr>now_elapsed = 100, now_recorded = 100, now_ts = 100\<rparr>
          (optimize_calls S1
             [(default_settings, \<lparr>now_elapsed = 50, now_recorded = 50, now_ts = 50\<rparr>, unstable)])
          snapshot
        = (Inr None,
           optimize_calls S1
             [(default_settings, \<lparr>now_elapsed = 50, now_recorded = 50, now_ts = 50\<rparr>, unstable)])
    | _ \<Rightarrow> False) \<and>
   (\<exists>r tasks1.
      slow_optimizer_loop_task default_settings \<lparr>now_elapsed = 5, now_recorded = 5, now_ts = 5\<rparr>
        (run_passes background_tasks
           [FastPass (default_settings, \<lparr>now_elapsed = 0, now_recorded = 0, now_ts = 0\<rparr>, unstable)])
        snapshot = (Some (''slow_optimizer'', r), tasks1) \<and>
      Proposal.action r = ''increase_batch_window'' \<and> Proposal.target r = ''system'') \<and>
   (\<exists>r tasks1.
      fast_guardrail_loop_task default_settings \<lparr>now_elapsed = 5, now_recorded = 5, now_ts = 5\<rparr>
        (run_passes background_tasks
           [SlowPass (default_settings, \<lparr>now_elapsed = 0, now_recorded = 0, now_ts = 0\<rparr>, snapshot)])
        unstable = (Some (''fast_guardrail'', r), tasks1) \<and>
      Proposal.action r = ''increase_batch_window'' \<and> Proposal.target r = ''system'')"
proof -
  let ?c0 = "\<lparr>now_elapsed = 0, now_recorded = 0, now_ts = 0\<rparr>"
  let ?c5 = "\<lparr>now_elapsed = 5, now_recorded = 5, now_ts = 5\<rparr>"
  let ?c10 = "\<lparr>now_elapsed = 10, now_recorded = 10, now_ts = 10\<rparr>"
  let ?c20 = "\<lparr>now_elapsed = 20, now_recorded = 20, now_ts = 20\<rparr>"
  let ?c50 = "\<lparr>now_elapsed = 50, now_recorded = 50, now_ts = 50\<rparr>"
  let ?c100 = "\<lparr>now_elapsed = 100, now_recorded = 100, now_ts = 100\<rparr>"
  obtain why best where fb: "fast_best default_settings unstable = Inr (Some (why, best))"
    and a: "action best = ''increase_batch_window''" and t: "target best = ''system''"
    using fast_best_unstable by (simp add: new_candidate_def)
  obtain why2 best2 where fb2: "fast_best default_settings hot = Inr (Some (why2, best2))"
    and a2: "action best2 = ''pause_low_priority_jobs''" and t2: "target best2 = ''scheduler''"
    using fast_best_hot by (simp add: new_candidate_def)
  obtain best3 where sb: "slow_best default_settings snapshot = Inr (Some best3)"
    and a3: "action best3 = ''increase_batch_window''" and t3: "target best3 = ''system''"
    using slow_best_snapshot by (simp add: new_candidate_def)
  have f0: "FastGuardrailLoop.last_action_ts FastGuardrailLoop_init k = None" for k
    by (simp add: FastGuardrailLoop_init_def)
  have s0: "SlowOptimizerLoop.last_action_ts SlowOptimizerLoop_init k = None" for k
    by (simp add: SlowOptimizerLoop_init_def)
  \<comment> \<open>the fast loop\<close>
  from evaluate_fires [OF fb f0, of ?c0] obtain p F1 where
    e1: "evaluate default_settings ?c0 FastGuardrailLoop_init unstable = (Inr (Some p), F1)"
    and pa: "Proposal.action p = action best" and pt: "Proposal.target p = target best"
    by blast
  from evaluate_emits [OF e1] fb have F1: "F1 = FastGuardrailLoop_init
      \<lparr>FastGuardrailLoop.last_action_ts :=
         (FastGuardrailLoop.last_action_ts FastGuardrailLoop_init)(target_key best \<mapsto> 0)\<rparr>"
    by auto
  have "FastGuardrailLoop.last_action_ts F1 (target_key best2) = None"
    by (simp add: F1 f0 target_key_def a t a2 t2)
  from evaluate_fires [OF fb2 this, of ?c10] obtain p2 F2 where
    e2: "evaluate default_settings ?c10 F1 hot = (Inr (Some p2), F2)"
    and pa2: "Proposal.action p2 = action best2" and pt2: "Proposal.target p2 = target best2"
    by blast
  have F2: "evaluate_calls F1 [(default_settings, ?c10, hot)] = F2" by (simp add: e2)
  have "evaluate default_settings ?c0 FastGuardrailLoop_init unstable = (Inr (Some p), F1) \<and>
    (\<forall>(s, clk, st) \<in> set [(default_settings, ?c10, hot)]. now_recorded ?c0 \<le> now_recorded clk) \<and>
    fast_best default_settings unstable = Inr (Some (why, best)) \<and>
    target_key best = Proposal.action p @ '':'' @ Proposal.target p \<and>
    now_elapsed ?c20 - now_recorded ?c0 < 60"
    using e1 fb pa pt by (simp add: target_key_def)
  then have "evaluate default_settings ?c20
       (evaluate_calls F1 [(default_settings, ?c10, hot)]) unstable
     = (Inr None, evaluate_calls F1 [(default_settings, ?c10, hot)])"
    by (rule rate_limit_suppression [THEN conjunct1, THEN mp])
  then have e3: "evaluate default_settings ?c20 F2 unstable = (Inr None, F2)"
    unfolding F2 .
  have fast: "(case evaluate default_settings ?c0 FastGuardrailLoop_init unstable of
      (Inr (Some p), F1) \<Rightarrow>
        Proposal.action p = ''increase_batch_window'' \<and> Proposal.target p = ''system'' \<and>
        (case evaluate default_settings ?c10 F1 hot of
           (Inr (Some p2), F2) \<Rightarrow>
             Proposal.action p2 = ''pause_low_priority_jobs'' \<and>
             Proposal.target p2 = ''scheduler'' \<and>
             evaluate default_settings ?c20 F2 unstable = (Inr None, F2)
         | _ \<Rightarrow> False)
    | _ \<Rightarrow> False)"
    by (simp add: e1 e2 e3 pa pt pa2 pt2 a t a2 t2)
  \<comment> \<open>the slow loop\<close>
  from optimize_fires [OF sb s0, of ?c0] obtain q S1 where
    o1: "optimize default_settings ?c0 SlowOptimizerLoop_init snapshot = (Inr (Some q), S1)"
    and qa: "Proposal.action q = action best3" and qt: "Proposal.target q = target best3"
    by blast
  have "optimize default_settings ?c0 SlowOptimizerLoop_init snapshot = (Inr (Some q), S1) \<and>
    (\<forall>(s, clk, st) \<in> set [(default_settings, ?c50, unstable)].
        now_recorded ?c0 \<le> now_recorded clk) \<and>
    slow_best default_settings snapshot = Inr (Some best3) \<and>
    target_key best3 = Proposal.action q @ '':'' @ Proposal.target q \<and>
    now_elapsed ?c100 - now_recorded ?c0 < of_int (write_rate_limit_s default_settings)"
    using o1 sb qa qt by (simp add: target_key_def default_settings_def)
  then have o2: "optimize default_settings ?c100
       (optimize_calls S1 [(default_settings, ?c50, unstable)]) snapshot
     = (Inr None, optimize_calls S1 [(default_settings, ?c50, unstable)])"
    by (rule rate_limit_suppression [THEN conjunct2, THEN conjunct1, THEN mp])
  have slow: "(case optimize default_settings ?c0 SlowOptimizerLoop_init snapshot of
      (Inr (Some q), S1) \<Rightarrow>
        Proposal.action q = ''increase_batch_window'' \<and> Proposal.target q = ''system'' \<and>
        optimize default_settings ?c100
          (optimize_calls S1 [(default_settings, ?c50, unstable)]) snapshot
        = (Inr None, optimize_calls S1 [(default_settings, ?c50, unstable)])
    | _ \<Rightarrow> False)"
    using o2 by (simp add: o1 qa qt a3 t3)
  \<comment> \<open>one loop after the other has fired\<close>
  have "slow_ticks [FastPass (default_settings, ?c0, unstable)] = [] \<and>
    slow_best default_settings snapshot = Inr (Some best3) \<and>
    SlowOptimizerLoop.last_action_ts (slow_loop background_tasks) (target_key best3) = None"
    using sb by (simp add: background_tasks_def s0)
  then have "\<exists>r tasks1.
      slow_optimizer_loop_task default_settings ?c5
        (run_passes background_tasks [FastPass (default_settings, ?c0, unstable)])
        snapshot = (Some (''slow_optimizer'', r), tasks1) \<and>
      Proposal.action r = action best3 \<and> Proposal.target r = target best3"
    by (rule rate_limit_suppression
        [THEN conjunct2, THEN conjunct2, THEN conjunct2, THEN conjunct2, THEN conjunct2,
         THEN conjunct1, THEN mp])
  then have cross1: "\<exists>r tasks1.
      slow_optimizer_loop_task default_settings ?c5
        (run_passes background_tasks [FastPass (default_settings, ?c0, unstable)])
        snapshot = (Some (''slow_optimizer'', r), tasks1) \<and>
      Proposal.action r = ''increase_batch_window'' \<and> Proposal.target r = ''system''"
    unfolding a3 t3 .
  have "fast_ticks [SlowPass (default_settings, ?c0, snapshot)] = [] \<and>
    fast_best default_settings unstable = Inr (Some (why, best)) \<and>
    FastGuardrailLoop.last_action_ts (fast_loop background_tasks) (target_key best) = None"
    using fb by (simp add: background_tasks_def f0)
  then have "\<exists>r tasks1.
      fast_guardrail_loop_task default_settings ?c5
        (run_passes background_tasks [SlowPass (default_settings, ?c0, snapshot)])
        unstable = (Some (''fast_guardrail'', r), tasks1) \<and>
      Proposal.action r = action best \<and> Proposal.target r = target best"
    by (rule rate_limit_suppression
        [THEN conjunct2, THEN conjunct2, THEN conjunct2, THEN conjunct2, THEN conjunct2,
         THEN conjunct2, THEN mp])
  then have cross2: "\<exists>r tasks1.
      fast_guardrail_loop_task default_settings ?c5
        (run_passes background_tasks [SlowPass (default_settings, ?c0, snapshot)])
        unstable = (Some (''fast_guardrail'', r), tasks1) \<and>
      Proposal.action r = ''increase_batch_window'' \<and> Proposal.target r = ''system''"
    unfolding a t .
  from fast slow cross1 cross2 show ?thesis by (intro conjI)
qed

subsection \<open>Training thresholds\<close>

























subsection \<open>Batch scoring\<close>

























end
